theory Spec2Isabelle
  imports Main
begin

section \<open>Trello synchronisation: the data model\<close>

text \<open>
  The development embeds the card synchronisation code of \<^verbatim>\<open>src/lib/mcp/trello.ts\<close>
  (called the TS module below) and of the older JavaScript service it was converted from
  (the JS module, which also holds the retry sweeper \<^verbatim>\<open>processFailedSyncs\<close>).
  Every \<^verbatim>\<open>throw\<close> is a value of type \<open>error\<close>; every effect on the database or
  on the provider is a change of an explicit \<open>world\<close>.
\<close>

subsection \<open>Errors\<close>

text \<open>
  The code throws plain \<^verbatim>\<open>Error(message)\<close> objects; the runtime adds \<^verbatim>\<open>TypeError\<close>
  (a property read on \<^verbatim>\<open>null\<close>, a rejected \<^verbatim>\<open>fetch\<close>) and \<^verbatim>\<open>RangeError\<close>
  (\<^verbatim>\<open>toISOString\<close> of an invalid date).
\<close>

datatype error = Error string | TypeError string | RangeError string

fun message :: "error \<Rightarrow> string" where
  "message (Error m) = m"
| "message (TypeError m) = m"
| "message (RangeError m) = m"

subsection \<open>Time\<close>

text \<open>
  A time is the number of milliseconds since the epoch, as \<^verbatim>\<open>Date.now()\<close> returns it.
  A \<^verbatim>\<open>Date\<close> holds a time value of at most 8.64e15 in absolute value; \<^verbatim>\<open>new Date(t)\<close>
  with a larger \<open>t\<close> is an invalid date, and \<^verbatim>\<open>toISOString()\<close> of an invalid date
  throws \<^verbatim>\<open>RangeError\<close>. The ISO string of a valid date is represented by its time value.
  All numbers involved are integers below \<open>2^53\<close> whenever the date is valid, so the
  double arithmetic of the source is exact there.
\<close>

definition max_time_value :: int where
  "max_time_value = 8640000000000000"

definition toISOString :: "int \<Rightarrow> error + int" where
  "toISOString t =
     (if \<bar>t\<bar> \<le> max_time_value then Inr t else Inl (RangeError ''Invalid time value''))"

text \<open>\<^verbatim>\<open>calculateNextRetry(retryCount)\<close>; the first argument is the reading of \<^verbatim>\<open>Date.now()\<close>.\<close>

definition calculateNextRetry :: "int \<Rightarrow> nat \<Rightarrow> error + int" where
  "calculateNextRetry now retryCount =
     (let baseDelay = 5 * 60 * 1000;
          delay = baseDelay * 2 ^ retryCount;
          nextRetry = now + delay
      in toISOString nextRetry)"

subsection \<open>JavaScript values\<close>

text \<open>
  A nullable or optional string is a \<open>string option\<close>; \<open>None\<close> stands for both
  \<^verbatim>\<open>null\<close> and \<^verbatim>\<open>undefined\<close>. \<open>truthy\<close> is the test \<^verbatim>\<open>if (s)\<close> of the source:
  present and not the empty string.
\<close>

definition truthy :: "string option \<Rightarrow> bool" where
  "truthy s = (case s of None \<Rightarrow> False | Some t \<Rightarrow> t \<noteq> [])"

definition text_of :: "string option \<Rightarrow> string" where
  "text_of s = (case s of None \<Rightarrow> [] | Some t \<Rightarrow> t)"

definition nl :: string where
  "nl = [CHR 0x0A]"

definition digit_char :: "nat \<Rightarrow> char" where
  "digit_char d = ''0123456789'' ! d"

fun show_nat :: "nat \<Rightarrow> string" where
  "show_nat n = (if n < 10 then [digit_char n] else show_nat (n div 10) @ [digit_char (n mod 10)])"

declare show_nat.simps [simp del]

subsection \<open>Tables\<close>

record trello_config =
  cfg_api_key :: "string option"
  cfg_token :: "string option"
  cfg_board_id :: "string option"
  cfg_list_id :: "string option"
  cfg_default_list_id :: "string option"
  cfg_default_members :: "string list option"
  cfg_priority_labels :: "(string \<times> string) list option"
  cfg_type_labels :: "(string \<times> string) list option"

record client =
  cl_trello_config :: "trello_config option"

record design_request =
  dr_short_id :: string
  dr_client_id :: string
  dr_project_name :: "string option"
  dr_context :: "string option"
  dr_design_needs :: "string option"
  dr_key_message :: "string option"
  dr_size_format :: "string option"
  dr_additional_notes :: "string option"
  dr_contact_email :: string
  dr_priority :: string
  dr_request_type :: string
  dr_created_at :: string
  dr_deadline :: "string option"
  dr_file_urls :: "string list option"
  dr_trello_card_id :: "string option"
  dr_trello_card_url :: "string option"
  dr_sync_status :: string
  dr_sync_error :: "string option"
  dr_sync_attempts :: "nat option"
  dr_last_sync_at :: "int option"

text \<open>
  What the provider answers, parsed from JSON, in the shapes the code reads:
  a card \<^verbatim>\<open>{id, url}\<close>, an array of lists \<^verbatim>\<open>[{id, name}, ...]\<close>, a comment \<^verbatim>\<open>{id}\<close>,
  a board with its lists, or anything else.
\<close>

datatype response =
    CardJson string string
  | ListsJson "(string \<times> string) list"
  | CommentJson string
  | BoardJson "(string \<times> string) list option"
  | OtherJson

text \<open>\<^verbatim>\<open>trelloResponse.id\<close> and \<^verbatim>\<open>trelloResponse.url\<close>.\<close>

fun response_id :: "response \<Rightarrow> string option" where
  "response_id (CardJson i u) = Some i"
| "response_id (CommentJson i) = Some i"
| "response_id _ = None"

fun response_url :: "response \<Rightarrow> string option" where
  "response_url (CardJson i u) = Some u"
| "response_url _ = None"

text \<open>\<^verbatim>\<open>lists[0]?.id\<close> and \<^verbatim>\<open>board.lists?.[0]?.id\<close>.\<close>

fun first_list_id :: "response \<Rightarrow> string option" where
  "first_list_id (ListsJson ((i, n) # rest)) = Some i"
| "first_list_id _ = None"

fun board_first_list_id :: "response \<Rightarrow> string option" where
  "board_first_list_id (BoardJson (Some ((i, n) # rest))) = Some i"
| "board_first_list_id _ = None"

text \<open>
  A row of \<^verbatim>\<open>sync_logs\<close>. Its id is its position in the table. \<open>sl_retry_count\<close> is
  \<open>None\<close> until the code writes it (the column's default is not part of the sources).
\<close>

record sync_log =
  sl_client_id :: string
  sl_design_request_id :: string
  sl_sync_type :: string
  sl_operation :: string
  sl_status :: string
  sl_synced_by :: string
  sl_trello_card_id :: "string option"
  sl_trello_response :: "response option"
  sl_error_message :: "string option"
  sl_retry_count :: "nat option"
  sl_next_retry_at :: "int option"
  sl_completed_at :: "int option"
  sl_created_at :: int

subsection \<open>Requests to the provider\<close>

record card_data =
  cd_name :: string
  cd_desc :: string
  cd_idList :: "string option"
  cd_pos :: string
  cd_due :: "int option"
  cd_labels :: "string list"
  cd_members :: "string list"

text \<open>
  \<open>update_data\<close> is the caller's \<^verbatim>\<open>updateData\<close>, \<open>trello_update\<close> the object
  \<^verbatim>\<open>trelloUpdateData\<close> sent to the provider. A field that is \<open>None\<close> is not a key of
  the object. \<open>closed\<close> is the one field the code tests with \<^verbatim>\<open>!== undefined\<close>, so
  its \<^verbatim>\<open>null\<close> is kept apart: \<open>None\<close> is \<^verbatim>\<open>undefined\<close>, \<open>Some None\<close> is
  \<^verbatim>\<open>null\<close>, \<open>Some (Some b)\<close> is the boolean \<open>b\<close>.
\<close>

record update_data =
  ud_name :: "string option"
  ud_desc :: "string option"
  ud_due :: "string option"
  ud_idList :: "string option"
  ud_closed :: "bool option option"

record trello_update =
  tu_name :: "string option"
  tu_desc :: "string option"
  tu_due :: "int option"
  tu_idList :: "string option"
  tu_closed :: "bool option option"

datatype body =
    NoBody
  | CardBody card_data
  | UpdateBody trello_update
  | CommentBody string

record http_request =
  rq_method :: string
  rq_endpoint :: string
  rq_key :: "string option"
  rq_token :: "string option"
  rq_body :: body

datatype fetch_result =
    NetworkFailure string
  | HttpResponse nat string response

datatype tool_args =
    CreateCardArgs card_data
  | UpdateCardArgs string trello_update
  | AddCommentArgs string string
  | GetBoardArgs string string

subsection \<open>The world and its environment\<close>

text \<open>
  The \<open>trace\<close> records, in order, every request sent to the provider and every write
  that reached the database.
\<close>

datatype event =
    Fetch http_request
  | McpCall string tool_args
  | SyncLogInserted nat sync_log
  | SyncLogUpdated nat sync_log
  | DesignRequestUpdated string design_request
  | ActivityLogged string string string

record world =
  design_requests :: "string \<rightharpoonup> design_request"
  clients :: "string \<rightharpoonup> client"
  sync_logs :: "sync_log list"
  trace :: "event list"

datatype db_op =
    SelectDesignRequest string
  | InsertSyncLog
  | UpdateSyncLog nat
  | UpdateDesignRequest string
  | InsertActivityLog
  | SelectFailedSyncs

text \<open>
  Everything the code does not decide itself: the clock, the provider's answers, the
  MCP server's answers, whether a database statement fails (and with which message),
  and the locale-dependent date functions of the runtime. Each may depend on the world
  at the moment of the call.
\<close>

record env =
  clock :: "world \<Rightarrow> int"
  fetch :: "world \<Rightarrow> http_request \<Rightarrow> fetch_result"
  callTool :: "world \<Rightarrow> string \<Rightarrow> tool_args \<Rightarrow> string + response"
  db_error :: "world \<Rightarrow> db_op \<Rightarrow> string option"
  parse_date :: "string \<Rightarrow> int option"
  toLocaleDateString :: "string \<Rightarrow> string"

subsection \<open>Asynchronous computations that may throw\<close>

type_synonym 'a eff = "world \<Rightarrow> (error + 'a) \<times> world"

definition resolve :: "'a \<Rightarrow> 'a eff" where
  "resolve a w = (Inr a, w)"

definition throw :: "error \<Rightarrow> 'a eff" where
  "throw e w = (Inl e, w)"

definition await :: "'a eff \<Rightarrow> ('a \<Rightarrow> 'b eff) \<Rightarrow> 'b eff" where
  "await m f w = (case m w of (Inl e, w') \<Rightarrow> (Inl e, w') | (Inr a, w') \<Rightarrow> f a w')"

definition try_catch :: "'a eff \<Rightarrow> (error \<Rightarrow> 'a eff) \<Rightarrow> 'a eff" where
  "try_catch m h w = (case m w of (Inl e, w') \<Rightarrow> h e w' | (Inr a, w') \<Rightarrow> (Inr a, w'))"

definition lift :: "error + 'a \<Rightarrow> 'a eff" where
  "lift r w = (r, w)"

definition emit :: "event \<Rightarrow> world \<Rightarrow> world" where
  "emit e w = w\<lparr>trace := trace w @ [e]\<rparr>"

text \<open>\<^verbatim>\<open>Date.now()\<close>, and \<^verbatim>\<open>new Date().toISOString()\<close> (the clock never reads an invalid date).\<close>

definition now :: "env \<Rightarrow> int eff" where
  "now env w = (Inr (clock env w), w)"

section \<open>The card-field builder\<close>

text \<open>\<^verbatim>\<open>buildCardDescription(designRequest)\<close>: one \<^verbatim>\<open>description += ...\<close> per line.\<close>

definition buildCardDescription :: "env \<Rightarrow> design_request \<Rightarrow> string" where
  "buildCardDescription env designRequest =
     (let description = ''**Design Request: '' @ dr_short_id designRequest @ ''**'' @ nl @ nl;
          description =
            (if truthy (dr_context designRequest)
             then description @ ''**Context:**'' @ nl @ text_of (dr_context designRequest) @ nl @ nl
             else description);
          description =
            (if truthy (dr_design_needs designRequest)
             then description @ ''**Design Needs:**'' @ nl @ text_of (dr_design_needs designRequest) @ nl @ nl
             else description);
          description =
            (if truthy (dr_key_message designRequest)
             then description @ ''**Key Message:**'' @ nl @ text_of (dr_key_message designRequest) @ nl @ nl
             else description);
          description =
            (if truthy (dr_size_format designRequest)
             then description @ ''**Size/Format:**'' @ nl @ text_of (dr_size_format designRequest) @ nl @ nl
             else description);
          description =
            (if truthy (dr_additional_notes designRequest)
             then description @ ''**Additional Notes:**'' @ nl @ text_of (dr_additional_notes designRequest) @ nl @ nl
             else description);
          description = description @ ''**Contact:** '' @ dr_contact_email designRequest @ nl;
          description = description @ ''**Priority:** '' @ dr_priority designRequest @ nl;
          description = description @ ''**Submitted:** ''
                          @ toLocaleDateString env (dr_created_at designRequest) @ nl;
          description =
            (case dr_file_urls designRequest of
               None \<Rightarrow> description
             | Some urls \<Rightarrow>
                 if length urls > 0
                 then description @ nl @ ''**Attached Files:** '' @ show_nat (length urls) @ '' file(s)''
                 else description)
      in description)"

text \<open>
  \<^verbatim>\<open>buildCardLabels(designRequest, trelloConfig)\<close>. The label maps are looked up by
  their own keys: the priorities and request types of the data model name no inherited
  property of a JavaScript object.
\<close>

definition label_for :: "(string \<times> string) list option \<Rightarrow> string \<Rightarrow> string list" where
  "label_for labels k =
     (case labels of
        None \<Rightarrow> []
      | Some m \<Rightarrow> (if truthy (map_of m k) then [text_of (map_of m k)] else []))"

definition buildCardLabels :: "design_request \<Rightarrow> trello_config \<Rightarrow> string list" where
  "buildCardLabels designRequest trelloConfig =
     label_for (cfg_priority_labels trelloConfig) (dr_priority designRequest)
     @ label_for (cfg_type_labels trelloConfig) (dr_request_type designRequest)"

text \<open>The card title: \<^verbatim>\<open>`${short_id}: ${project_name || 'Design Request'}`\<close>.\<close>

definition card_name :: "design_request \<Rightarrow> string" where
  "card_name designRequest =
     dr_short_id designRequest @ '': ''
     @ (if truthy (dr_project_name designRequest) then text_of (dr_project_name designRequest)
        else ''Design Request'')"

section \<open>The ledger and the design-request table\<close>

text \<open>
  The query of \<^verbatim>\<open>design_requests\<close> joined with \<^verbatim>\<open>clients\<close>, followed by the test
  \<^verbatim>\<open>if (requestError || !designRequest) throw new Error('Design request not found')\<close>.
\<close>

definition select_design_request :: "env \<Rightarrow> string \<Rightarrow> (design_request \<times> client option) eff" where
  "select_design_request env designRequestId w =
     (case db_error env w (SelectDesignRequest designRequestId) of
        Some m \<Rightarrow> (Inl (Error ''Design request not found''), w)
      | None \<Rightarrow>
          (case design_requests w designRequestId of
             None \<Rightarrow> (Inl (Error ''Design request not found''), w)
           | Some designRequest \<Rightarrow>
               (Inr (designRequest, clients w (dr_client_id designRequest)), w)))"

text \<open>
  \<^verbatim>\<open>createSyncLog(logData)\<close> inserts the row and returns its id; the database stamps
  \<^verbatim>\<open>created_at\<close>.
\<close>

definition createSyncLog :: "env \<Rightarrow> sync_log \<Rightarrow> nat eff" where
  "createSyncLog env logData w =
     (case db_error env w InsertSyncLog of
        Some m \<Rightarrow> (Inl (Error (''Failed to create sync log: '' @ m)), w)
      | None \<Rightarrow>
          (let logId = length (sync_logs w);
               row = logData\<lparr>sl_created_at := clock env w\<rparr>
           in (Inr logId, emit (SyncLogInserted logId row) (w\<lparr>sync_logs := sync_logs w @ [row]\<rparr>))))"

text \<open>
  \<^verbatim>\<open>updateSyncLog(logId, updateData)\<close>; \<open>updateData\<close> is the assignment of the fields it
  names. \<^verbatim>\<open>.single()\<close> reports an error when no row has the id.
\<close>

definition updateSyncLog :: "env \<Rightarrow> nat \<Rightarrow> (sync_log \<Rightarrow> sync_log) \<Rightarrow> unit eff" where
  "updateSyncLog env logId updateData w =
     (case db_error env w (UpdateSyncLog logId) of
        Some m \<Rightarrow> (Inl (Error (''Failed to update sync log: '' @ m)), w)
      | None \<Rightarrow>
          (if logId < length (sync_logs w)
           then (let row = updateData (sync_logs w ! logId)
                 in (Inr (), emit (SyncLogUpdated logId row)
                               (w\<lparr>sync_logs := (sync_logs w)[logId := row]\<rparr>)))
           else (Inl (Error (''Failed to update sync log: no rows returned'')), w)))"

text \<open>
  \<^verbatim>\<open>supabase.from('design_requests').update(...).eq('id', id)\<close>: the statement never
  throws, it returns its error.
\<close>

definition update_design_request ::
  "env \<Rightarrow> string \<Rightarrow> (design_request \<Rightarrow> design_request) \<Rightarrow> string option eff" where
  "update_design_request env designRequestId updateData w =
     (case db_error env w (UpdateDesignRequest designRequestId) of
        Some m \<Rightarrow> (Inr (Some m), w)
      | None \<Rightarrow>
          (case design_requests w designRequestId of
             None \<Rightarrow> (Inr None, w)
           | Some r \<Rightarrow>
               (Inr None,
                emit (DesignRequestUpdated designRequestId (updateData r))
                  (w\<lparr>design_requests := (design_requests w)(designRequestId \<mapsto> updateData r)\<rparr>))))"

text \<open>\<^verbatim>\<open>logActivity\<close> catches every error of its own.\<close>

definition logActivity :: "env \<Rightarrow> string \<Rightarrow> string \<Rightarrow> string \<Rightarrow> unit eff" where
  "logActivity env entityType entityId action w =
     (case db_error env w InsertActivityLog of
        Some m \<Rightarrow> (Inr (), w)
      | None \<Rightarrow> (Inr (), emit (ActivityLogged entityType entityId action) w))"

section \<open>The provider adapter\<close>

text \<open>\<^verbatim>\<open>callTrelloAPI(method, endpoint, data, trelloConfig)\<close>.\<close>

definition callTrelloAPI :: "env \<Rightarrow> string \<Rightarrow> string \<Rightarrow> body \<Rightarrow> trello_config \<Rightarrow> response eff" where
  "callTrelloAPI env method endpoint data trelloConfig w =
     (let request = \<lparr>rq_method = method, rq_endpoint = endpoint,
                      rq_key = cfg_api_key trelloConfig, rq_token = cfg_token trelloConfig,
                      rq_body = (if method \<noteq> ''GET'' then data else NoBody)\<rparr>;
          w' = emit (Fetch request) w
      in case fetch env w request of
           NetworkFailure m \<Rightarrow> (Inl (TypeError m), w')
         | HttpResponse status errorText json \<Rightarrow>
             if 200 \<le> status \<and> status \<le> 299 then (Inr json, w')
             else (Inl (Error (''Trello API error: '' @ show_nat status @ '' '' @ errorText)), w'))"

text \<open>\<^verbatim>\<open>trelloMCP.callTool(name, args)\<close> and its wrappers in the MCP helper module.\<close>

definition mcp_callTool :: "env \<Rightarrow> string \<Rightarrow> tool_args \<Rightarrow> response eff" where
  "mcp_callTool env name args w =
     (let w' = emit (McpCall name args) w
      in case callTool env w name args of
           Inl m \<Rightarrow> (Inl (Error m), w')
         | Inr result \<Rightarrow> (Inr result, w'))"

definition mcp_helper :: "env \<Rightarrow> string \<Rightarrow> tool_args \<Rightarrow> string \<Rightarrow> response eff" where
  "mcp_helper env name args what =
     try_catch (mcp_callTool env name args)
       (\<lambda>error. throw (Error (''MCP '' @ what @ '' failed: '' @ message error)))"

datatype source = TS | JS

datatype operation = CreateCard card_data | UpdateCard string trello_update | AddComment string string

fun operation_name :: "operation \<Rightarrow> string" where
  "operation_name (CreateCard d) = ''create''"
| "operation_name (UpdateCard i u) = ''update''"
| "operation_name (AddComment i t) = ''comment''"

text \<open>The \<^verbatim>\<open>switch (operation)\<close> over the direct calls, the same in both modules.\<close>

fun direct_api :: "env \<Rightarrow> operation \<Rightarrow> trello_config \<Rightarrow> response eff" where
  "direct_api env (CreateCard d) trelloConfig =
     callTrelloAPI env ''POST'' ''/cards'' (CardBody d) trelloConfig"
| "direct_api env (UpdateCard i updateData) trelloConfig =
     callTrelloAPI env ''PUT'' (''/cards/'' @ i) (UpdateBody updateData) trelloConfig"
| "direct_api env (AddComment i t) trelloConfig =
     callTrelloAPI env ''POST'' (''/cards/'' @ i @ ''/actions/comments'') (CommentBody t) trelloConfig"

fun via_mcp :: "env \<Rightarrow> operation \<Rightarrow> response eff" where
  "via_mcp env (CreateCard d) = mcp_helper env ''create_card'' (CreateCardArgs d) ''card creation''"
| "via_mcp env (UpdateCard i u) = mcp_helper env ''update_card'' (UpdateCardArgs i u) ''card update''"
| "via_mcp env (AddComment i t) = mcp_helper env ''add_comment'' (AddCommentArgs i t) ''comment addition''"

text \<open>
  \<^verbatim>\<open>callTrelloWithFallback(operation, data, trelloConfig)\<close>. The TS module calls the
  provider directly; the JS module tries the MCP server first. The operation and its
  data travel together, so the \<^verbatim>\<open>default:\<close> branch of the switch has no counterpart.
\<close>

definition callTrelloWithFallback ::
  "source \<Rightarrow> env \<Rightarrow> operation \<Rightarrow> trello_config \<Rightarrow> (response \<times> string) eff" where
  "callTrelloWithFallback src env data trelloConfig =
     (case src of
        TS \<Rightarrow>
          try_catch
            (await (direct_api env data trelloConfig)
               (\<lambda>trelloResponse. resolve (trelloResponse, ''direct_api'')))
            (\<lambda>error. throw (Error (''Trello '' @ operation_name data @ '' failed: '' @ message error)))
      | JS \<Rightarrow>
          try_catch
            (await (via_mcp env data) (\<lambda>trelloResponse. resolve (trelloResponse, ''mcp'')))
            (\<lambda>mcpError.
               try_catch
                 (await (direct_api env data trelloConfig)
                    (\<lambda>trelloResponse. resolve (trelloResponse, ''direct_api'')))
                 (\<lambda>directApiError.
                    throw (Error (''Trello '' @ operation_name data @ '' failed: MCP (''
                                  @ message mcpError @ '') and Direct API (''
                                  @ message directApiError @ '')'')))))"

text \<open>\<^verbatim>\<open>getDefaultListId(trelloConfig)\<close>; the result may be \<^verbatim>\<open>undefined\<close>.\<close>

definition lists_endpoint :: "trello_config \<Rightarrow> string" where
  "lists_endpoint trelloConfig = ''/boards/'' @ text_of (cfg_board_id trelloConfig) @ ''/lists''"

definition getDefaultListId :: "source \<Rightarrow> env \<Rightarrow> trello_config \<Rightarrow> string option eff" where
  "getDefaultListId src env trelloConfig =
     (if truthy (cfg_default_list_id trelloConfig) then resolve (cfg_default_list_id trelloConfig)
      else case src of
        TS \<Rightarrow>
          try_catch
            (await (callTrelloAPI env ''GET'' (lists_endpoint trelloConfig) NoBody trelloConfig)
               (\<lambda>lists. resolve (first_list_id lists)))
            (\<lambda>error. throw (Error ''Failed to get default list ID''))
      | JS \<Rightarrow>
          try_catch
            (await (mcp_helper env ''get_board''
                      (GetBoardArgs (text_of (cfg_board_id trelloConfig)) ''lists'') ''board retrieval'')
               (\<lambda>board. resolve (board_first_list_id board)))
            (\<lambda>mcpError.
               await (callTrelloAPI env ''GET'' (lists_endpoint trelloConfig) NoBody trelloConfig)
                 (\<lambda>lists. resolve (first_list_id lists))))"

section \<open>The sync orchestrator\<close>

definition config_error :: error where
  "config_error = Error ''Trello configuration not found for client''"

definition no_card_error :: error where
  "no_card_error = Error ''No Trello card associated with this request''"

definition null_client_error :: error where
  "null_client_error = TypeError ''Cannot read properties of null''"

text \<open>\<^verbatim>\<open>new Date(s).toISOString()\<close> for a date string \<open>s\<close>.\<close>

definition iso_of_date_string :: "env \<Rightarrow> string \<Rightarrow> error + int" where
  "iso_of_date_string env s =
     (case parse_date env s of
        None \<Rightarrow> Inl (RangeError ''Invalid time value'')
      | Some t \<Rightarrow> toISOString t)"

definition optional_iso :: "env \<Rightarrow> string option \<Rightarrow> error + int option" where
  "optional_iso env s =
     (if truthy s
      then (case iso_of_date_string env (text_of s) of Inl e \<Rightarrow> Inl e | Inr t \<Rightarrow> Inr (Some t))
      else Inr None)"

text \<open>
  An assignment \<^verbatim>\<open>{column: value}\<close> in an update leaves the column alone when the
  value is \<^verbatim>\<open>undefined\<close>.
\<close>

definition assign_if_defined :: "'a option \<Rightarrow> 'a option \<Rightarrow> 'a option" where
  "assign_if_defined v old = (case v of None \<Rightarrow> old | Some x \<Rightarrow> Some x)"

text \<open>The object handed to \<^verbatim>\<open>createSyncLog\<close>: status \<^verbatim>\<open>in_progress\<close>, synced by \<^verbatim>\<open>pending\<close>.\<close>

definition new_sync_log :: "string \<Rightarrow> string \<Rightarrow> string \<Rightarrow> string option \<Rightarrow> sync_log" where
  "new_sync_log clientId designRequestId operation cardId =
     \<lparr>sl_client_id = clientId, sl_design_request_id = designRequestId,
      sl_sync_type = ''trello_card'', sl_operation = operation, sl_status = ''in_progress'',
      sl_synced_by = ''pending'', sl_trello_card_id = cardId, sl_trello_response = None,
      sl_error_message = None, sl_retry_count = None, sl_next_retry_at = None,
      sl_completed_at = None, sl_created_at = 0\<rparr>"

text \<open>The \<^verbatim>\<open>cardData\<close> literal of \<^verbatim>\<open>createTrelloCard\<close>, its fields evaluated in order.\<close>

definition prepare_card_data :: "source \<Rightarrow> env \<Rightarrow> design_request \<Rightarrow> trello_config \<Rightarrow> card_data eff" where
  "prepare_card_data src env designRequest trelloConfig =
     await (if truthy (cfg_list_id trelloConfig) then resolve (cfg_list_id trelloConfig)
            else getDefaultListId src env trelloConfig) (\<lambda>idList.
     await (lift (optional_iso env (dr_deadline designRequest))) (\<lambda>due.
     resolve \<lparr>cd_name = card_name designRequest,
              cd_desc = buildCardDescription env designRequest,
              cd_idList = idList,
              cd_pos = ''top'',
              cd_due = due,
              cd_labels = buildCardLabels designRequest trelloConfig,
              cd_members = (case cfg_default_members trelloConfig of None \<Rightarrow> [] | Some ms \<Rightarrow> ms)\<rparr>))"

text \<open>The handler \<^verbatim>\<open>catch (trelloError)\<close> of \<^verbatim>\<open>createTrelloCard\<close>.\<close>

definition create_failed ::
  "env \<Rightarrow> string \<Rightarrow> design_request \<Rightarrow> nat \<Rightarrow> error \<Rightarrow> response eff" where
  "create_failed env designRequestId designRequest syncLog trelloError =
     await (now env) (\<lambda>t.
     await (lift (calculateNextRetry t 0)) (\<lambda>nextRetry.
     await (updateSyncLog env syncLog
              (\<lambda>l. l\<lparr>sl_status := ''failed'',
                      sl_error_message := Some (message trelloError),
                      sl_retry_count := Some 0,
                      sl_next_retry_at := Some nextRetry\<rparr>)) (\<lambda>_.
     await (update_design_request env designRequestId
              (\<lambda>r. r\<lparr>dr_sync_status := ''failed'',
                      dr_sync_error := Some (message trelloError),
                      dr_sync_attempts :=
                        Some ((case dr_sync_attempts designRequest of None \<Rightarrow> 0 | Some n \<Rightarrow> n) + 1)\<rparr>)) (\<lambda>_.
     throw trelloError))))"

text \<open>The body of the inner \<^verbatim>\<open>try\<close> of \<^verbatim>\<open>createTrelloCard\<close>.\<close>

definition create_attempt ::
  "source \<Rightarrow> env \<Rightarrow> string \<Rightarrow> trello_config \<Rightarrow> card_data \<Rightarrow> nat \<Rightarrow> response eff" where
  "create_attempt src env designRequestId trelloConfig cardData syncLog =
     await (callTrelloWithFallback src env (CreateCard cardData) trelloConfig) (\<lambda>(trelloResponse, method).
     await (now env) (\<lambda>t.
     await (update_design_request env designRequestId
              (\<lambda>r. r\<lparr>dr_trello_card_id := assign_if_defined (response_id trelloResponse) (dr_trello_card_id r),
                      dr_trello_card_url := assign_if_defined (response_url trelloResponse) (dr_trello_card_url r),
                      dr_sync_status := ''synced'',
                      dr_last_sync_at := Some t,
                      dr_sync_error := None\<rparr>)) (\<lambda>updateError.
     await (now env) (\<lambda>t'.
     await (updateSyncLog env syncLog
              (\<lambda>l. l\<lparr>sl_status := ''completed'',
                      sl_trello_card_id := assign_if_defined (response_id trelloResponse) (sl_trello_card_id l),
                      sl_trello_response := Some trelloResponse,
                      sl_synced_by := method,
                      sl_completed_at := Some t'\<rparr>)) (\<lambda>_.
     await (logActivity env ''design_request'' designRequestId ''trello_card_created'') (\<lambda>_.
     resolve trelloResponse))))))"

text \<open>\<^verbatim>\<open>createTrelloCard(designRequestId)\<close>.\<close>

definition createTrelloCard :: "source \<Rightarrow> env \<Rightarrow> string \<Rightarrow> response eff" where
  "createTrelloCard src env designRequestId =
     await (select_design_request env designRequestId) (\<lambda>(designRequest, client).
     case client of
       None \<Rightarrow> throw null_client_error
     | Some cl \<Rightarrow>
         (case cl_trello_config cl of
            None \<Rightarrow> throw config_error
          | Some trelloConfig \<Rightarrow>
              if \<not> truthy (cfg_api_key trelloConfig) \<or> \<not> truthy (cfg_token trelloConfig)
                 \<or> \<not> truthy (cfg_board_id trelloConfig)
              then throw config_error
              else
                await (prepare_card_data src env designRequest trelloConfig) (\<lambda>cardData.
                await (createSyncLog env
                         (new_sync_log (dr_client_id designRequest) designRequestId ''create'' None)) (\<lambda>syncLog.
                try_catch
                  (create_attempt src env designRequestId trelloConfig cardData syncLog)
                  (create_failed env designRequestId designRequest syncLog)))))"

text \<open>The fields copied into \<^verbatim>\<open>trelloUpdateData\<close> by \<^verbatim>\<open>updateTrelloCard\<close>.\<close>

definition build_trello_update :: "env \<Rightarrow> update_data \<Rightarrow> error + trello_update" where
  "build_trello_update env updateData =
     (case optional_iso env (ud_due updateData) of
        Inl e \<Rightarrow> Inl e
      | Inr due \<Rightarrow>
          Inr \<lparr>tu_name = (if truthy (ud_name updateData) then ud_name updateData else None),
               tu_desc = (if truthy (ud_desc updateData) then ud_desc updateData else None),
               tu_due = due,
               tu_idList = (if truthy (ud_idList updateData) then ud_idList updateData else None),
               tu_closed = ud_closed updateData\<rparr>)"

text \<open>The body of the inner \<^verbatim>\<open>try\<close> of \<^verbatim>\<open>updateTrelloCard\<close>.\<close>

definition update_attempt ::
  "source \<Rightarrow> env \<Rightarrow> string \<Rightarrow> string \<Rightarrow> trello_config \<Rightarrow> update_data \<Rightarrow> nat \<Rightarrow> response eff" where
  "update_attempt src env designRequestId cardId trelloConfig updateData syncLog =
     await (lift (build_trello_update env updateData)) (\<lambda>trelloUpdateData.
     await (callTrelloWithFallback src env (UpdateCard cardId trelloUpdateData) trelloConfig) (\<lambda>(trelloResponse, method).
     await (now env) (\<lambda>t.
     await (updateSyncLog env syncLog
              (\<lambda>l. l\<lparr>sl_status := ''completed'',
                      sl_trello_response := Some trelloResponse,
                      sl_synced_by := method,
                      sl_completed_at := Some t\<rparr>)) (\<lambda>_.
     await (now env) (\<lambda>t'.
     await (update_design_request env designRequestId
              (\<lambda>r. r\<lparr>dr_sync_status := ''synced'',
                      dr_last_sync_at := Some t',
                      dr_sync_error := None\<rparr>)) (\<lambda>_.
     await (logActivity env ''design_request'' designRequestId ''trello_card_updated'') (\<lambda>_.
     resolve trelloResponse)))))))"

text \<open>The handler \<^verbatim>\<open>catch (trelloError)\<close> of \<^verbatim>\<open>updateTrelloCard\<close>.\<close>

definition update_failed :: "env \<Rightarrow> nat \<Rightarrow> error \<Rightarrow> response eff" where
  "update_failed env syncLog trelloError =
     await (now env) (\<lambda>t.
     await (lift (calculateNextRetry t 0)) (\<lambda>nextRetry.
     await (updateSyncLog env syncLog
              (\<lambda>l. l\<lparr>sl_status := ''failed'',
                      sl_error_message := Some (message trelloError),
                      sl_retry_count := Some 0,
                      sl_next_retry_at := Some nextRetry\<rparr>)) (\<lambda>_.
     throw trelloError)))"

text \<open>\<^verbatim>\<open>updateTrelloCard(designRequestId, updateData)\<close>.\<close>

definition updateTrelloCard :: "source \<Rightarrow> env \<Rightarrow> string \<Rightarrow> update_data \<Rightarrow> response eff" where
  "updateTrelloCard src env designRequestId updateData =
     await (select_design_request env designRequestId) (\<lambda>(designRequest, client).
     if \<not> truthy (dr_trello_card_id designRequest) then throw no_card_error
     else case client of
       None \<Rightarrow> throw null_client_error
     | Some cl \<Rightarrow>
         (case cl_trello_config cl of
            None \<Rightarrow> throw config_error
          | Some trelloConfig \<Rightarrow>
              if \<not> truthy (cfg_api_key trelloConfig) \<or> \<not> truthy (cfg_token trelloConfig)
              then throw config_error
              else
                await (createSyncLog env
                         (new_sync_log (dr_client_id designRequest) designRequestId ''update''
                            (dr_trello_card_id designRequest))) (\<lambda>syncLog.
                try_catch
                  (update_attempt src env designRequestId (text_of (dr_trello_card_id designRequest))
                     trelloConfig updateData syncLog)
                  (update_failed env syncLog))))"

text \<open>\<^verbatim>\<open>addTrelloComment(designRequestId, comment)\<close>.\<close>

definition addTrelloComment :: "source \<Rightarrow> env \<Rightarrow> string \<Rightarrow> string \<Rightarrow> response eff" where
  "addTrelloComment src env designRequestId comment =
     await (select_design_request env designRequestId) (\<lambda>(designRequest, client).
     if \<not> truthy (dr_trello_card_id designRequest) then throw no_card_error
     else case client of
       None \<Rightarrow> throw null_client_error
     | Some cl \<Rightarrow>
         (case cl_trello_config cl of
            None \<Rightarrow> throw config_error
          | Some trelloConfig \<Rightarrow>
              if \<not> truthy (cfg_api_key trelloConfig) \<or> \<not> truthy (cfg_token trelloConfig)
              then throw config_error
              else
                await (callTrelloWithFallback src env
                         (AddComment (text_of (dr_trello_card_id designRequest)) comment) trelloConfig)
                  (\<lambda>(trelloResponse, method).
                await (logActivity env ''design_request'' designRequestId ''trello_comment_added'') (\<lambda>_.
                resolve trelloResponse))))"

section \<open>The retry sweeper (JS module)\<close>

text \<open>
  The query of \<^verbatim>\<open>processFailedSyncs\<close>: status \<^verbatim>\<open>failed\<close> or \<^verbatim>\<open>retrying\<close>,
  \<^verbatim>\<open>next_retry_at <= now\<close>, \<^verbatim>\<open>retry_count < 5\<close>, oldest first, at most ten rows. A
  comparison with a \<^verbatim>\<open>NULL\<close> column selects nothing. Rows created at the same instant
  come in the order of their ids.
\<close>

definition ready_for_retry :: "int \<Rightarrow> sync_log \<Rightarrow> bool" where
  "ready_for_retry t l =
     ((sl_status l = ''failed'' \<or> sl_status l = ''retrying'')
      \<and> (case sl_next_retry_at l of None \<Rightarrow> False | Some r \<Rightarrow> r \<le> t)
      \<and> (case sl_retry_count l of None \<Rightarrow> False | Some n \<Rightarrow> n < 5))"

definition select_failed_syncs :: "env \<Rightarrow> (nat \<times> sync_log) list eff" where
  "select_failed_syncs env w =
     (case db_error env w SelectFailedSyncs of
        Some m \<Rightarrow> (Inl (Error (''Failed to get failed syncs: '' @ m)), w)
      | None \<Rightarrow>
          (Inr (take 10 (sort_key (\<lambda>(i, l). sl_created_at l)
                          (filter (\<lambda>(i, l). ready_for_retry (clock env w) l)
                             (enumerate 0 (sync_logs w))))), w))"

text \<open>\<^verbatim>\<open>retryCreateTrelloCard(syncLog)\<close> and \<^verbatim>\<open>retryUpdateTrelloCard(syncLog)\<close>.\<close>

definition retryCreateTrelloCard :: "env \<Rightarrow> sync_log \<Rightarrow> response eff" where
  "retryCreateTrelloCard env syncLog = createTrelloCard JS env (sl_design_request_id syncLog)"

definition select_design_request_plain :: "env \<Rightarrow> string \<Rightarrow> design_request option eff" where
  "select_design_request_plain env designRequestId w =
     (case db_error env w (SelectDesignRequest designRequestId) of
        Some m \<Rightarrow> (Inr None, w)
      | None \<Rightarrow> (Inr (design_requests w designRequestId), w))"

definition retryUpdateTrelloCard :: "env \<Rightarrow> sync_log \<Rightarrow> response eff" where
  "retryUpdateTrelloCard env syncLog =
     await (select_design_request_plain env (sl_design_request_id syncLog)) (\<lambda>found.
     case found of
       None \<Rightarrow> throw (Error ''Design request not found for retry'')
     | Some designRequest \<Rightarrow>
         updateTrelloCard JS env (sl_design_request_id syncLog)
           \<lparr>ud_name = Some (card_name designRequest),
            ud_desc = Some (buildCardDescription env designRequest),
            ud_due = None, ud_idList = None, ud_closed = None\<rparr>)"

datatype sweep_result =
    Retried nat "response option"
  | RetryFailed nat string nat

text \<open>The body of the \<^verbatim>\<open>try\<close> inside the loop: the dispatch on the entry's operation.\<close>

definition retry_entry :: "env \<Rightarrow> nat \<Rightarrow> sync_log \<Rightarrow> sweep_result eff" where
  "retry_entry env logId syncLog =
     await (if sl_sync_type syncLog = ''trello_card'' \<and> sl_operation syncLog = ''create''
            then await (retryCreateTrelloCard env syncLog) (\<lambda>r. resolve (Some r))
            else if sl_sync_type syncLog = ''trello_card'' \<and> sl_operation syncLog = ''update''
            then await (retryUpdateTrelloCard env syncLog) (\<lambda>r. resolve (Some r))
            else resolve None) (\<lambda>result.
     resolve (Retried logId result))"

text \<open>The handler \<^verbatim>\<open>catch (retryError)\<close> inside the loop.\<close>

definition retry_failed :: "env \<Rightarrow> nat \<Rightarrow> sync_log \<Rightarrow> error \<Rightarrow> sweep_result eff" where
  "retry_failed env logId syncLog retryError =
     (let newRetryCount = (case sl_retry_count syncLog of None \<Rightarrow> 0 | Some n \<Rightarrow> n) + 1
      in await (if newRetryCount \<ge> 5 then resolve None
                else await (now env) (\<lambda>t.
                     await (lift (calculateNextRetry t newRetryCount)) (\<lambda>r. resolve (Some r)))) (\<lambda>nextRetryAt.
         await (updateSyncLog env logId
                  (\<lambda>l. l\<lparr>sl_status := (if newRetryCount \<ge> 5 then ''failed_permanently'' else ''failed''),
                          sl_error_message := Some (message retryError),
                          sl_retry_count := Some newRetryCount,
                          sl_next_retry_at := nextRetryAt\<rparr>)) (\<lambda>_.
         resolve (RetryFailed logId (message retryError) newRetryCount))))"

text \<open>The loop \<^verbatim>\<open>for (const syncLog of failedSyncs)\<close>, pushing onto \<^verbatim>\<open>results\<close>.\<close>

fun retry_loop :: "env \<Rightarrow> (nat \<times> sync_log) list \<Rightarrow> sweep_result list \<Rightarrow> sweep_result list eff" where
  "retry_loop env [] results w = (Inr results, w)"
| "retry_loop env ((logId, syncLog) # rest) results w =
     (case try_catch (retry_entry env logId syncLog) (retry_failed env logId syncLog) w of
        (Inl e, w') \<Rightarrow> (Inl e, w')
      | (Inr r, w') \<Rightarrow> retry_loop env rest (results @ [r]) w')"

text \<open>\<^verbatim>\<open>processFailedSyncs()\<close>.\<close>

definition processFailedSyncs :: "env \<Rightarrow> sweep_result list eff" where
  "processFailedSyncs env =
     await (select_failed_syncs env) (\<lambda>failedSyncs. retry_loop env failedSyncs [])"

section \<open>The submission flow\<close>

text \<open>
  \<^verbatim>\<open>onSubmit\<close> of the new-request page, from the point where the user, the upload and
  \<^verbatim>\<open>insertDesignRequest\<close> have given their outcomes: the world is the one after the
  insert. The handler ends by redirecting to the request list or by showing an error.
\<close>

record insert_result =
  ir_success :: bool
  ir_id :: string
  ir_short_id :: string
  ir_message :: "string option"

datatype submit_outcome = Redirected string | ErrorShown string

definition shown_message :: "string \<Rightarrow> string" where
  "shown_message m = (if m \<noteq> [] then m else ''Failed to submit request'')"

definition onSubmit ::
  "env \<Rightarrow> bool \<Rightarrow> error + unit \<Rightarrow> error + insert_result \<Rightarrow> world \<Rightarrow> submit_outcome \<times> world" where
  "onSubmit env signedIn uploaded inserted w =
     (if \<not> signedIn then (ErrorShown ''User not authenticated'', w)
      else case uploaded of
        Inl err \<Rightarrow> (ErrorShown (shown_message (message err)), w)
      | Inr _ \<Rightarrow>
          (case inserted of
             Inl err \<Rightarrow> (ErrorShown (shown_message (message err)), w)
           | Inr result \<Rightarrow>
               if \<not> ir_success result
               then (ErrorShown (shown_message
                       (if truthy (ir_message result) then text_of (ir_message result)
                        else ''Failed to submit request'')), w)
               else (case createTrelloCard TS env (ir_id result) w of
                       (outcome, w') \<Rightarrow> (Redirected (ir_short_id result), w'))))"

section \<open>The specification's wording of the description\<close>

text \<open>
  The description as the specification words it: the title line, then the optional
  sections whose field is present (not null and not empty), in the fixed order, each under
  its bold label, then the three mandatory lines, then the attachment-count line when
  there are attachments.
\<close>

definition spec_optional_sections :: "design_request \<Rightarrow> (string \<times> string option) list" where
  "spec_optional_sections r =
     [(''Context'', dr_context r), (''Design Needs'', dr_design_needs r),
      (''Key Message'', dr_key_message r), (''Size/Format'', dr_size_format r),
      (''Additional Notes'', dr_additional_notes r)]"

definition spec_present_sections :: "design_request \<Rightarrow> (string \<times> string option) list" where
  "spec_present_sections r =
     filter (\<lambda>(label, content). content \<noteq> None \<and> content \<noteq> Some []) (spec_optional_sections r)"

definition spec_section :: "string \<times> string option \<Rightarrow> string" where
  "spec_section s =
     (case s of (label, content) \<Rightarrow> ''**'' @ label @ '':**'' @ nl @ text_of content @ nl @ nl)"

definition spec_mandatory_lines :: "env \<Rightarrow> design_request \<Rightarrow> string" where
  "spec_mandatory_lines env r =
     ''**Contact:** '' @ dr_contact_email r @ nl
     @ ''**Priority:** '' @ dr_priority r @ nl
     @ ''**Submitted:** '' @ toLocaleDateString env (dr_created_at r) @ nl"

definition spec_attachment_line :: "design_request \<Rightarrow> string" where
  "spec_attachment_line r =
     (if dr_file_urls r \<noteq> None \<and> dr_file_urls r \<noteq> Some []
      then nl @ ''**Attached Files:** '' @ show_nat (length (the (dr_file_urls r))) @ '' file(s)''
      else [])"

definition spec_description :: "env \<Rightarrow> design_request \<Rightarrow> string" where
  "spec_description env r =
     ''**Design Request: '' @ dr_short_id r @ ''**'' @ nl @ nl
     @ concat (map spec_section (spec_present_sections r))
     @ spec_mandatory_lines env r
     @ spec_attachment_line r"

section \<open>Vocabulary for the properties\<close>

text \<open>
  \<open>lacks config required\<close>: the configuration is missing, or one of the required fields is
  absent or empty.
\<close>

definition lacks :: "trello_config option \<Rightarrow> (trello_config \<Rightarrow> string option) list \<Rightarrow> bool" where
  "lacks config required =
     (case config of None \<Rightarrow> True | Some c \<Rightarrow> list_ex (\<lambda>field. \<not> truthy (field c)) required)"

text \<open>The clock reads a time between 1970 and 2100.\<close>

definition sane_clock :: "env \<Rightarrow> bool" where
  "sane_clock env = (\<forall>w. 0 \<le> clock env w \<and> clock env w \<le> 4102444800000)"

text \<open>
  Kinds of events. A provider call is a request to the provider or to the MCP server;
  a card call is one that creates, changes or comments a card (the lookup of a board's
  lists is not).
\<close>

fun provider_call :: "event \<Rightarrow> bool" where
  "provider_call (Fetch q) = True"
| "provider_call (McpCall name args) = True"
| "provider_call _ = False"




text \<open>
  \<open>extends_by P w w'\<close>: the world \<open>w'\<close> has the trace of \<open>w\<close> followed by events that
  all satisfy \<open>P\<close>. \<open>steps R m\<close>: the computation \<open>m\<close> takes every world to one related
  to it by \<open>R\<close>, whether it returns or throws.
\<close>

definition extends_by :: "(event \<Rightarrow> bool) \<Rightarrow> world \<Rightarrow> world \<Rightarrow> bool" where
  "extends_by P w w' = (\<exists>evs. trace w' = trace w @ evs \<and> list_all P evs)"

definition ledger_kept :: "world \<Rightarrow> world \<Rightarrow> bool" where
  "ledger_kept w w' = (length (sync_logs w) \<le> length (sync_logs w'))"

definition steps :: "(world \<Rightarrow> world \<Rightarrow> bool) \<Rightarrow> 'a eff \<Rightarrow> bool" where
  "steps R m = (\<forall>w. R w (snd (m w)))"

text \<open>\<open>trace_only\<close>: nothing but the trace differs.\<close>

definition trace_only :: "world \<Rightarrow> world \<Rightarrow> bool" where
  "trace_only w w' = (\<exists>t. w' = w\<lparr>trace := t\<rparr>)"








text \<open>The ledger entry a result of the sweeper is about.\<close>

fun result_entry :: "sweep_result \<Rightarrow> nat" where
  "result_entry (Retried i r) = i"
| "result_entry (RetryFailed i m n) = i"

section \<open>Concrete worlds\<close>

text \<open>
  One client with a complete configuration and one request of that client, a provider
  that accepts every call, an MCP server that is not connected, and a database that
  executes every statement.
\<close>

definition example_config :: trello_config where
  "example_config =
     \<lparr>cfg_api_key = Some ''key-1'', cfg_token = Some ''token-1'', cfg_board_id = Some ''board-1'',
      cfg_list_id = Some ''list-1'', cfg_default_list_id = None, cfg_default_members = None,
      cfg_priority_labels = Some [(''urgent'', ''label123'')], cfg_type_labels = None\<rparr>"

definition example_request :: design_request where
  "example_request =
     \<lparr>dr_short_id = ''DR-2025-123456'', dr_client_id = ''client-1'',
      dr_project_name = Some ''Launch banner'', dr_context = Some ''Spring campaign'',
      dr_design_needs = None, dr_key_message = Some [], dr_size_format = None,
      dr_additional_notes = None, dr_contact_email = ''ana@example.com'',
      dr_priority = ''urgent'', dr_request_type = ''design_request'',
      dr_created_at = ''2025-05-01T10:00:00Z'', dr_deadline = None, dr_file_urls = Some [],
      dr_trello_card_id = None, dr_trello_card_url = None, dr_sync_status = ''pending'',
      dr_sync_error = None, dr_sync_attempts = None, dr_last_sync_at = None\<rparr>"

definition example_world :: world where
  "example_world =
     \<lparr>design_requests = [''req-1'' \<mapsto> example_request],
      clients = [''client-1'' \<mapsto> \<lparr>cl_trello_config = Some example_config\<rparr>],
      sync_logs = [], trace = []\<rparr>"

definition example_env :: env where
  "example_env =
     \<lparr>clock = (\<lambda>w. 1762128000000),
      fetch = (\<lambda>w q. if rq_method q = ''GET''
                      then HttpResponse 200 ''OK'' (ListsJson [(''L1'', ''Inbox''), (''L2'', ''Doing'')])
                      else HttpResponse 200 ''OK'' (CardJson ''card-1'' ''https://trello.com/c/card-1'')),
      callTool = (\<lambda>w name args. Inl ''MCP client not connected and connection failed''),
      db_error = (\<lambda>w op. None),
      parse_date = (\<lambda>s. if s = ''2025-06-01'' then Some 1748736000000 else None),
      toLocaleDateString = (\<lambda>s. ''5/1/2025'')\<rparr>"

text \<open>The same provider answering every call with HTTP 401.\<close>

definition rejecting_env :: env where
  "rejecting_env = example_env\<lparr>fetch := (\<lambda>w q. HttpResponse 401 ''invalid key'' OtherJson)\<rparr>"

text \<open>A request that already has its card, and a client whose configuration names no board.\<close>

definition synced_request :: design_request where
  "synced_request =
     example_request\<lparr>dr_trello_card_id := Some ''card-1'', dr_sync_status := ''synced''\<rparr>"

definition synced_world :: world where
  "synced_world = example_world\<lparr>design_requests := [''req-1'' \<mapsto> synced_request]\<rparr>"

definition no_board_world :: world where
  "no_board_world =
     synced_world\<lparr>clients :=
       [''client-1'' \<mapsto> \<lparr>cl_trello_config = Some (example_config\<lparr>cfg_board_id := None\<rparr>)\<rparr>]\<rparr>"

definition rename_update :: update_data where
  "rename_update =
     \<lparr>ud_name = Some ''DR-2025-123456: Launch banner v2'', ud_desc = None, ud_due = None,
      ud_idList = None, ud_closed = None\<rparr>"

text \<open>A client whose token is the empty string.\<close>

definition no_token_world :: world where
  "no_token_world =
     synced_world\<lparr>clients :=
       [''client-1'' \<mapsto> \<lparr>cl_trello_config = Some (example_config\<lparr>cfg_token := Some []\<rparr>)\<rparr>]\<rparr>"

text \<open>A client whose configuration names no list.\<close>

definition no_list_world :: world where
  "no_list_world =
     example_world\<lparr>clients :=
       [''client-1'' \<mapsto> \<lparr>cl_trello_config = Some (example_config\<lparr>cfg_list_id := None\<rparr>)\<rparr>]\<rparr>"

text \<open>
  A ledger with two failed create attempts, both due for a retry, for two requests of
  the client; a provider that rejects every call; and a database on which the update of
  ledger row 0 fails.
\<close>

definition failed_entry :: "string \<Rightarrow> int \<Rightarrow> sync_log" where
  "failed_entry designRequestId created =
     (new_sync_log ''client-1'' designRequestId ''create'' None)
       \<lparr>sl_status := ''failed'', sl_error_message := Some ''Trello create failed'',
        sl_retry_count := Some 0, sl_next_retry_at := Some (created + 300000),
        sl_created_at := created\<rparr>"

definition two_failed_world :: world where
  "two_failed_world =
     example_world\<lparr>design_requests :=
                     [''req-1'' \<mapsto> example_request,
                      ''req-2'' \<mapsto> example_request\<lparr>dr_short_id := ''DR-2025-654321''\<rparr>],
                   sync_logs := [failed_entry ''req-1'' 1762120000000,
                                 failed_entry ''req-2'' 1762121000000]\<rparr>"

definition flaky_env :: env where
  "flaky_env =
     rejecting_env\<lparr>db_error :=
       (\<lambda>w op. if op = UpdateSyncLog 0 then Some ''connection lost'' else None)\<rparr>"

text \<open>A ledger whose only entry has failed four retries already.\<close>

definition last_chance_world :: world where
  "last_chance_world =
     example_world\<lparr>sync_logs := [(failed_entry ''req-1'' 1762120000000)\<lparr>sl_retry_count := Some 4\<rparr>]\<rparr>"

text \<open>
  Two updates: one that supplies an empty name beside a new description, and one that
  supplies a name, an empty description, a due date and \<^verbatim>\<open>closed: null\<close>.
\<close>

definition blank_name_update :: update_data where
  "blank_name_update =
     \<lparr>ud_name = Some [], ud_desc = Some ''Updated brief'', ud_due = None,
      ud_idList = None, ud_closed = None\<rparr>"

definition mixed_update :: update_data where
  "mixed_update =
     \<lparr>ud_name = Some ''DR-2025-123456: Launch banner v2'', ud_desc = Some [],
      ud_due = Some ''2025-06-01'', ud_idList = None, ud_closed = Some None\<rparr>"

section \<open>Reasoning about computations\<close>

lemma truthy_iff: "truthy s \<longleftrightarrow> s \<noteq> None \<and> s \<noteq> Some []"
  by (simp add: truthy_def split: option.splits)

subsection \<open>Relations kept by every step\<close>

lemma steps_resolve: "reflp R \<Longrightarrow> steps R (resolve a)"
  by (simp add: steps_def resolve_def reflp_def)

lemma steps_throw: "reflp R \<Longrightarrow> steps R (throw e)"
  by (simp add: steps_def throw_def reflp_def)

lemma steps_lift: "reflp R \<Longrightarrow> steps R (lift r)"
  by (simp add: steps_def lift_def reflp_def)

lemma steps_now: "reflp R \<Longrightarrow> steps R (now env)"
  by (simp add: steps_def now_def reflp_def)

lemma steps_await:
  assumes "transp R" and "steps R m" and "\<And>a. steps R (f a)"
  shows "steps R (await m f)"
  unfolding steps_def
proof
  fix w
  obtain res w1 where m: "m w = (res, w1)" by (cases "m w")
  from assms(2) m have r1: "R w w1" by (auto simp: steps_def dest: spec [of _ w])
  show "R w (snd (await m f w))"
  proof (cases res)
    case (Inl e)
    with m r1 show ?thesis by (simp add: await_def)
  next
    case (Inr a)
    from assms(3) have "R w1 (snd (f a w1))" by (simp add: steps_def)
    with r1 assms(1) have "R w (snd (f a w1))" by (blast dest: transpD)
    with m Inr show ?thesis by (simp add: await_def)
  qed
qed

lemma steps_try_catch:
  assumes "transp R" and "steps R m" and "\<And>e. steps R (h e)"
  shows "steps R (try_catch m h)"
  unfolding steps_def
proof
  fix w
  obtain res w1 where m: "m w = (res, w1)" by (cases "m w")
  from assms(2) m have r1: "R w w1" by (auto simp: steps_def dest: spec [of _ w])
  show "R w (snd (try_catch m h w))"
  proof (cases res)
    case (Inr a)
    with m r1 show ?thesis by (simp add: try_catch_def)
  next
    case (Inl e)
    from assms(3) have "R w1 (snd (h e w1))" by (simp add: steps_def)
    with r1 assms(1) have "R w (snd (h e w1))" by (blast dest: transpD)
    with m Inl show ?thesis by (simp add: try_catch_def)
  qed
qed

lemma steps_if: "steps R a \<Longrightarrow> steps R b \<Longrightarrow> steps R (if c then a else b)"
  by simp

lemma steps_case_option:
  "steps R a \<Longrightarrow> (\<And>x. steps R (f x)) \<Longrightarrow> steps R (case v of None \<Rightarrow> a | Some x \<Rightarrow> f x)"
  by (cases v) simp_all

lemma steps_case_prod: "(\<And>a b. steps R (f a b)) \<Longrightarrow> steps R (case p of (a, b) \<Rightarrow> f a b)"
  by (cases p) simp

lemma steps_case_source: "steps R a \<Longrightarrow> steps R b \<Longrightarrow> steps R (case s of TS \<Rightarrow> a | JS \<Rightarrow> b)"
  by (cases s) simp_all

lemma steps_weaken: "steps R m \<Longrightarrow> (\<And>w w'. R w w' \<Longrightarrow> S w w') \<Longrightarrow> steps S m"
  by (simp add: steps_def)

lemma steps_run: "steps R m \<Longrightarrow> m w = (res, w') \<Longrightarrow> R w w'"
  by (auto simp: steps_def dest: spec [of _ w])

lemma reflp_extends_by: "reflp (extends_by P)"
  by (simp add: reflp_def extends_by_def)

lemma transp_extends_by: "transp (extends_by P)"
proof (rule transpI)
  fix a b c
  assume "extends_by P a b" and "extends_by P b c"
  then obtain e1 e2 where "trace b = trace a @ e1" "list_all P e1"
      "trace c = trace b @ e2" "list_all P e2"
    by (auto simp: extends_by_def)
  then have "trace c = trace a @ (e1 @ e2) \<and> list_all P (e1 @ e2)" by simp
  then show "extends_by P a c" unfolding extends_by_def by blast
qed

lemma reflp_ledger_kept: "reflp ledger_kept"
  by (simp add: reflp_def ledger_kept_def)

lemma transp_ledger_kept: "transp ledger_kept"
  by (auto simp: transp_def ledger_kept_def)

lemmas steps_intros =
  steps_await steps_try_catch steps_if steps_case_option steps_case_prod steps_case_source
  steps_resolve steps_throw steps_lift steps_now

subsection \<open>What each statement writes\<close>

lemma steps_select_design_request: "reflp R \<Longrightarrow> steps R (select_design_request env rid)"
  by (simp add: steps_def select_design_request_def reflp_def split: option.splits)

lemma emits_createSyncLog:
  "(\<And>i l. P (SyncLogInserted i l)) \<Longrightarrow> steps (extends_by P) (createSyncLog env logData)"
  by (auto simp: steps_def createSyncLog_def Let_def extends_by_def emit_def split: option.splits)

lemma emits_updateSyncLog:
  "(\<And>i l. P (SyncLogUpdated i l)) \<Longrightarrow> steps (extends_by P) (updateSyncLog env logId f)"
  by (auto simp: steps_def updateSyncLog_def Let_def extends_by_def emit_def split: option.splits)

lemma emits_update_design_request:
  "(\<And>i r. P (DesignRequestUpdated i r)) \<Longrightarrow> steps (extends_by P) (update_design_request env rid f)"
  by (auto simp: steps_def update_design_request_def extends_by_def emit_def split: option.splits)

lemma emits_logActivity:
  "(\<And>a b c. P (ActivityLogged a b c)) \<Longrightarrow> steps (extends_by P) (logActivity env t i a)"
  by (auto simp: steps_def logActivity_def extends_by_def emit_def split: option.splits)






lemma reflp_trace_only: "reflp trace_only"
  unfolding reflp_def trace_only_def
proof
  fix w :: world
  have "w = w\<lparr>trace := trace w\<rparr>" by simp
  then show "\<exists>t. w = w\<lparr>trace := t\<rparr>" ..
qed

lemma transp_trace_only: "transp trace_only"
  by (auto simp: transp_def trace_only_def)

lemma trace_only_emit: "trace_only w (emit e w)"
  by (auto simp: trace_only_def emit_def)

lemma trace_only_fields:
  "trace_only w w' \<Longrightarrow> sync_logs w' = sync_logs w \<and> design_requests w' = design_requests w
     \<and> clients w' = clients w"
  by (auto simp: trace_only_def)

lemma trace_only_callTrelloAPI: "steps trace_only (callTrelloAPI env method endpoint data cfg)"
  by (auto simp: steps_def callTrelloAPI_def Let_def trace_only_emit split: fetch_result.splits)

lemma trace_only_mcp_helper: "steps trace_only (mcp_helper env name args what)"
  by (auto simp: steps_def mcp_helper_def mcp_callTool_def try_catch_def throw_def Let_def
      trace_only_emit split: sum.splits)

lemma trace_only_logActivity: "steps trace_only (logActivity env t i a)"
  using reflp_trace_only
  by (auto simp: steps_def logActivity_def trace_only_emit reflp_def split: option.splits)

lemma trace_only_direct_api: "steps trace_only (direct_api env data cfg)"
  by (cases data) (simp_all add: trace_only_callTrelloAPI)

lemma trace_only_via_mcp: "steps trace_only (via_mcp env data)"
  by (cases data) (simp_all add: trace_only_mcp_helper)

lemma trace_only_callTrelloWithFallback:
  "steps trace_only (callTrelloWithFallback src env data cfg)"
  unfolding callTrelloWithFallback_def
  by (intro steps_intros transp_trace_only reflp_trace_only trace_only_direct_api trace_only_via_mcp)

lemma trace_only_getDefaultListId: "steps trace_only (getDefaultListId src env cfg)"
  unfolding getDefaultListId_def
  by (intro steps_intros transp_trace_only reflp_trace_only trace_only_callTrelloAPI
      trace_only_mcp_helper)

lemma trace_only_prepare_card_data: "steps trace_only (prepare_card_data src env r cfg)"
  unfolding prepare_card_data_def
  by (intro steps_intros transp_trace_only reflp_trace_only trace_only_getDefaultListId)




subsection \<open>The clock\<close>

lemma calculateNextRetry_sane:
  assumes "sane_clock env" and "n \<le> 4"
  shows "calculateNextRetry (clock env w) n = Inr (clock env w + 300000 * 2 ^ n)"
proof -
  from assms(1) have c: "0 \<le> clock env w" "clock env w \<le> 4102444800000"
    by (simp_all add: sane_clock_def)
  from assms(2) have "(2::int) ^ n \<le> 2 ^ 4" by (intro power_increasing) simp_all
  then have p: "(2::int) ^ n \<le> 16" by simp
  have "(0::int) \<le> 2 ^ n" by simp
  with c p show ?thesis
    by (simp add: calculateNextRetry_def toISOString_def max_time_value_def Let_def)
qed

subsection \<open>Single statements that succeed\<close>

lemma createSyncLog_Inr:
  assumes "createSyncLog env l w = (Inr n, w1)"
  shows "n = length (sync_logs w)"
    and "sync_logs w1 = sync_logs w @ [l\<lparr>sl_created_at := clock env w\<rparr>]"
    and "design_requests w1 = design_requests w"
    and "trace w1 = trace w @ [SyncLogInserted (length (sync_logs w)) (l\<lparr>sl_created_at := clock env w\<rparr>)]"
  using assms
  by (auto simp: createSyncLog_def Let_def emit_def split: option.splits)

lemma createSyncLog_ok:
  "db_error env w InsertSyncLog = None \<Longrightarrow>
   createSyncLog env l w =
     (Inr (length (sync_logs w)),
      emit (SyncLogInserted (length (sync_logs w)) (l\<lparr>sl_created_at := clock env w\<rparr>))
        (w\<lparr>sync_logs := sync_logs w @ [l\<lparr>sl_created_at := clock env w\<rparr>]\<rparr>))"
  by (simp add: createSyncLog_def Let_def)

lemma updateSyncLog_ok:
  "db_error env w (UpdateSyncLog n) = None \<Longrightarrow> n < length (sync_logs w) \<Longrightarrow>
   updateSyncLog env n f w =
     (Inr (), emit (SyncLogUpdated n (f (sync_logs w ! n)))
                (w\<lparr>sync_logs := (sync_logs w)[n := f (sync_logs w ! n)]\<rparr>))"
  by (simp add: updateSyncLog_def Let_def)

lemma update_failed_run:
  assumes "db_error env w (UpdateSyncLog n) = None" and "n < length (sync_logs w)"
    and "sane_clock env"
  shows "update_failed env n e w =
     (Inl e, emit (SyncLogUpdated n
                    ((sync_logs w ! n)\<lparr>sl_status := ''failed'',
                       sl_error_message := Some (message e),
                       sl_retry_count := Some 0,
                       sl_next_retry_at := Some (clock env w + 300000)\<rparr>))
               (w\<lparr>sync_logs := (sync_logs w)[n :=
                    (sync_logs w ! n)\<lparr>sl_status := ''failed'',
                       sl_error_message := Some (message e),
                       sl_retry_count := Some 0,
                       sl_next_retry_at := Some (clock env w + 300000)\<rparr>]\<rparr>))"
proof -
  from assms(3) have "calculateNextRetry (clock env w) 0 = Inr (clock env w + 300000)"
    using calculateNextRetry_sane [of env 0 w] by simp
  with assms(1,2) show ?thesis
    by (simp add: update_failed_def await_def now_def lift_def updateSyncLog_ok throw_def)
qed

lemma create_failed_run:
  assumes "db_error env w (UpdateSyncLog n) = None" and "n < length (sync_logs w)"
    and "sane_clock env"
    and "\<forall>w'. db_error env w' (UpdateDesignRequest rid) = None"
    and "design_requests w rid = Some cur"
  shows "fst (create_failed env rid snapshot n e w) = Inl e"
    and "sync_logs (snd (create_failed env rid snapshot n e w)) =
           (sync_logs w)[n := (sync_logs w ! n)\<lparr>sl_status := ''failed'',
                                 sl_error_message := Some (message e),
                                 sl_retry_count := Some 0,
                                 sl_next_retry_at := Some (clock env w + 300000)\<rparr>]"
    and "design_requests (snd (create_failed env rid snapshot n e w)) =
           (design_requests w)(rid \<mapsto> cur\<lparr>dr_sync_status := ''failed'',
                 dr_sync_error := Some (message e),
                 dr_sync_attempts :=
                   Some ((case dr_sync_attempts snapshot of None \<Rightarrow> 0 | Some k \<Rightarrow> k) + 1)\<rparr>)"
proof -
  from assms(3) have "calculateNextRetry (clock env w) 0 = Inr (clock env w + 300000)"
    using calculateNextRetry_sane [of env 0 w] by simp
  with assms(1,2,4,5)
  show "fst (create_failed env rid snapshot n e w) = Inl e"
    and "sync_logs (snd (create_failed env rid snapshot n e w)) =
           (sync_logs w)[n := (sync_logs w ! n)\<lparr>sl_status := ''failed'',
                                 sl_error_message := Some (message e),
                                 sl_retry_count := Some 0,
                                 sl_next_retry_at := Some (clock env w + 300000)\<rparr>]"
    and "design_requests (snd (create_failed env rid snapshot n e w)) =
           (design_requests w)(rid \<mapsto> cur\<lparr>dr_sync_status := ''failed'',
                 dr_sync_error := Some (message e),
                 dr_sync_attempts :=
                   Some ((case dr_sync_attempts snapshot of None \<Rightarrow> 0 | Some k \<Rightarrow> k) + 1)\<rparr>)"
    by (simp_all add: create_failed_def await_def now_def lift_def updateSyncLog_ok throw_def
        update_design_request_def emit_def)
qed

subsection \<open>Counting the updates of a ledger entry\<close>




subsection \<open>How an attempt ends\<close>







subsection \<open>The create call\<close>

lemma try_await_extends:
  assumes "m w = (res, w2)" and "\<And>a. steps R (f a)" and "\<And>e. steps R (h e)"
    and "reflp R" and "transp R"
  shows "R w2 (snd (try_catch (await m f) h w))"
proof (cases res)
  case (Inl e)
  with assms(1) have "try_catch (await m f) h w = h e w2"
    by (simp add: try_catch_def await_def)
  with assms(3) show ?thesis by (simp add: steps_def)
next
  case (Inr a)
  obtain res3 w3 where f: "f a w2 = (res3, w3)" by (cases "f a w2")
  from assms(2) f have r23: "R w2 w3" by (auto dest: steps_run)
  show ?thesis
  proof (cases res3)
    case (Inr b)
    with assms(1) \<open>res = Inr a\<close> f have "try_catch (await m f) h w = (Inr b, w3)"
      by (simp add: try_catch_def await_def)
    with r23 show ?thesis by simp
  next
    case (Inl e)
    with assms(1) \<open>res = Inr a\<close> f have "try_catch (await m f) h w = h e w3"
      by (simp add: try_catch_def await_def)
    moreover from assms(3) have "R w3 (snd (h e w3))" by (simp add: steps_def)
    ultimately show ?thesis using r23 assms(5) by (auto dest: transpD)
  qed
qed

lemma direct_create_call:
  "\<exists>res. callTrelloWithFallback TS env (CreateCard cardData) cfg w =
     (res, emit (Fetch \<lparr>rq_method = ''POST'', rq_endpoint = ''/cards'',
                        rq_key = cfg_api_key cfg, rq_token = cfg_token cfg,
                        rq_body = CardBody cardData\<rparr>) w)"
  by (auto simp: callTrelloWithFallback_def callTrelloAPI_def try_catch_def await_def resolve_def
      throw_def Let_def split: fetch_result.splits)

lemma quiet_create_failed:
  "steps (extends_by (\<lambda>e. \<not> provider_call e)) (create_failed env rid snapshot n e)"
  unfolding create_failed_def
  by (intro steps_intros transp_extends_by reflp_extends_by emits_updateSyncLog
      emits_update_design_request) simp_all

subsection \<open>The ledger never shrinks\<close>

lemma ledger_kept_of_trace_only: "steps trace_only m \<Longrightarrow> steps ledger_kept m"
  by (erule steps_weaken) (simp add: ledger_kept_def trace_only_fields)

lemma ledger_kept_createSyncLog: "steps ledger_kept (createSyncLog env l)"
  by (auto simp: steps_def createSyncLog_def Let_def ledger_kept_def emit_def split: option.splits)

lemma ledger_kept_updateSyncLog: "steps ledger_kept (updateSyncLog env i f)"
  by (auto simp: steps_def updateSyncLog_def Let_def ledger_kept_def emit_def split: option.splits)

lemma ledger_kept_update_design_request: "steps ledger_kept (update_design_request env rid f)"
  by (auto simp: steps_def update_design_request_def ledger_kept_def emit_def split: option.splits)

lemma ledger_kept_select_plain: "steps ledger_kept (select_design_request_plain env rid)"
  by (auto simp: steps_def select_design_request_plain_def ledger_kept_def split: option.splits)

lemmas ledger_kept_intros =
  steps_intros transp_ledger_kept reflp_ledger_kept steps_select_design_request
  ledger_kept_createSyncLog ledger_kept_updateSyncLog ledger_kept_update_design_request
  ledger_kept_select_plain
  ledger_kept_of_trace_only [OF trace_only_callTrelloWithFallback]
  ledger_kept_of_trace_only [OF trace_only_prepare_card_data]
  ledger_kept_of_trace_only [OF trace_only_logActivity]

lemma ledger_kept_createTrelloCard: "steps ledger_kept (createTrelloCard src env rid)"
  unfolding createTrelloCard_def create_attempt_def create_failed_def
  by (intro ledger_kept_intros)

lemma ledger_kept_updateTrelloCard: "steps ledger_kept (updateTrelloCard src env rid u)"
  unfolding updateTrelloCard_def update_attempt_def update_failed_def
  by (intro ledger_kept_intros)

lemma ledger_kept_retry_entry: "steps ledger_kept (retry_entry env logId syncLog)"
  unfolding retry_entry_def retryCreateTrelloCard_def retryUpdateTrelloCard_def
  by (intro ledger_kept_intros ledger_kept_createTrelloCard ledger_kept_updateTrelloCard)

subsection \<open>The sweeper's bookkeeping\<close>

lemma retry_failed_run:
  assumes "sl_retry_count syncLog = Some k" and "k < 5"
    and "db_error env w (UpdateSyncLog i) = None" and "i < length (sync_logs w)"
    and "sane_clock env"
  shows "retry_failed env i syncLog e w =
     (Inr (RetryFailed i (message e) (k + 1)),
      emit (SyncLogUpdated i
              ((sync_logs w ! i)\<lparr>sl_status := (if k + 1 = 5 then ''failed_permanently'' else ''failed''),
                 sl_error_message := Some (message e),
                 sl_retry_count := Some (k + 1),
                 sl_next_retry_at :=
                   (if k + 1 = 5 then None else Some (clock env w + 300000 * 2 ^ (k + 1)))\<rparr>))
        (w\<lparr>sync_logs := (sync_logs w)[i :=
              (sync_logs w ! i)\<lparr>sl_status := (if k + 1 = 5 then ''failed_permanently'' else ''failed''),
                 sl_error_message := Some (message e),
                 sl_retry_count := Some (k + 1),
                 sl_next_retry_at :=
                   (if k + 1 = 5 then None else Some (clock env w + 300000 * 2 ^ (k + 1)))\<rparr>]\<rparr>))"
proof (cases "k + 1 = 5")
  case True
  with assms show ?thesis
    by (simp add: retry_failed_def await_def resolve_def updateSyncLog_ok Let_def)
next
  case False
  with assms(2) have "k + 1 \<le> 4" by simp
  with assms(5) have "calculateNextRetry (clock env w) (k + 1) = Inr (clock env w + 300000 * 2 ^ (k + 1))"
    by (rule calculateNextRetry_sane)
  with False assms show ?thesis
    by (simp add: retry_failed_def await_def resolve_def now_def lift_def updateSyncLog_ok Let_def)
qed

lemma calculateNextRetry_in_range:
  assumes "sane_clock env" and "n \<le> 34"
  shows "calculateNextRetry (clock env w) n = Inr (clock env w + 300000 * 2 ^ n)"
proof -
  from assms(1) have c: "0 \<le> clock env w" "clock env w \<le> 4102444800000"
    by (simp_all add: sane_clock_def)
  from assms(2) have "(2::int) ^ n \<le> 2 ^ 34" by (intro power_increasing) simp_all
  then have p: "(2::int) ^ n \<le> 17179869184" by simp
  have "(0::int) \<le> 2 ^ n" by simp
  with c p show ?thesis
    by (simp add: calculateNextRetry_def toISOString_def max_time_value_def Let_def)
qed

subsection \<open>What an update forwards\<close>






subsection \<open>Running the model on concrete worlds\<close>

lemmas example_defs = example_env_def example_world_def example_request_def example_config_def
  synced_world_def synced_request_def no_board_world_def no_token_world_def rejecting_env_def
  rename_update_def no_list_world_def two_failed_world_def failed_entry_def flaky_env_def
  last_chance_world_def blank_name_update_def mixed_update_def

lemmas run_defs = createTrelloCard_def updateTrelloCard_def addTrelloComment_def
  select_design_request_def await_def try_catch_def
  resolve_def throw_def lift_def now_def emit_def createSyncLog_def updateSyncLog_def
  update_design_request_def logActivity_def callTrelloAPI_def callTrelloWithFallback_def
  update_attempt_def update_failed_def create_attempt_def create_failed_def prepare_card_data_def
  build_trello_update_def optional_iso_def truthy_def text_of_def
  new_sync_log_def Let_def

lemmas sweep_defs = processFailedSyncs_def select_failed_syncs_def ready_for_retry_def
  retry_entry_def retry_failed_def retryCreateTrelloCard_def retryUpdateTrelloCard_def
  select_design_request_plain_def mcp_helper_def mcp_callTool_def calculateNextRetry_def
  toISOString_def max_time_value_def

lemma select_design_request_found:
  "db_error env w (SelectDesignRequest rid) = None \<Longrightarrow> design_requests w rid = Some r \<Longrightarrow>
   select_design_request env rid w = (Inr (r, clients w (dr_client_id r)), w)"
  by (simp add: select_design_request_def)

subsection \<open>The description, section by section\<close>

lemma append_if_section: "(if c then d @ x else d) = d @ (if c then x else [])"
  by simp

lemma attachment_case:
  "(case fu of None \<Rightarrow> d
    | Some urls \<Rightarrow> if length urls > 0 then d @ x (length urls) else d)
   = d @ (if fu \<noteq> None \<and> fu \<noteq> Some [] then x (length (the fu)) else [])"
  by (cases fu) auto

lemma concat_map_filter_Cons:
  "concat (map f (filter P (x # xs))) = (if P x then f x else []) @ concat (map f (filter P xs))"
  by simp

lemma source_description_sections:
  "buildCardDescription env r =
     ''**Design Request: '' @ dr_short_id r @ ''**'' @ nl @ nl
     @ (if truthy (dr_context r) then ''**Context:**'' @ nl @ text_of (dr_context r) @ nl @ nl else [])
     @ (if truthy (dr_design_needs r) then ''**Design Needs:**'' @ nl @ text_of (dr_design_needs r) @ nl @ nl else [])
     @ (if truthy (dr_key_message r) then ''**Key Message:**'' @ nl @ text_of (dr_key_message r) @ nl @ nl else [])
     @ (if truthy (dr_size_format r) then ''**Size/Format:**'' @ nl @ text_of (dr_size_format r) @ nl @ nl else [])
     @ (if truthy (dr_additional_notes r) then ''**Additional Notes:**'' @ nl @ text_of (dr_additional_notes r) @ nl @ nl else [])
     @ spec_mandatory_lines env r
     @ spec_attachment_line r"
  unfolding buildCardDescription_def Let_def spec_mandatory_lines_def spec_attachment_line_def
  apply (subst attachment_case [where x = "\<lambda>n. nl @ ''**Attached Files:** '' @ show_nat n @ '' file(s)''"])
  apply (simp only: append_if_section)
  apply (simp only: append_assoc)
  done

lemma spec_description_sections:
  "spec_description env r =
     ''**Design Request: '' @ dr_short_id r @ ''**'' @ nl @ nl
     @ (if truthy (dr_context r) then ''**Context:**'' @ nl @ text_of (dr_context r) @ nl @ nl else [])
     @ (if truthy (dr_design_needs r) then ''**Design Needs:**'' @ nl @ text_of (dr_design_needs r) @ nl @ nl else [])
     @ (if truthy (dr_key_message r) then ''**Key Message:**'' @ nl @ text_of (dr_key_message r) @ nl @ nl else [])
     @ (if truthy (dr_size_format r) then ''**Size/Format:**'' @ nl @ text_of (dr_size_format r) @ nl @ nl else [])
     @ (if truthy (dr_additional_notes r) then ''**Additional Notes:**'' @ nl @ text_of (dr_additional_notes r) @ nl @ nl else [])
     @ spec_mandatory_lines env r
     @ spec_attachment_line r"
  unfolding spec_description_def spec_present_sections_def spec_optional_sections_def
  apply (simp only: concat_map_filter_Cons filter.simps(1) list.map(1) concat.simps(1) append_Nil
      append_Nil2 prod.case truthy_iff [symmetric] append_assoc)
  apply (simp only: spec_section_def prod.case append_assoc cong: if_cong)
  apply (simp only: append.simps cong: if_cong)
  done

subsection \<open>Attempts and the ledger\<close>




section \<open>The claims\<close>

text \<open>
  C1 (as amended). On a request that loads, a create attempt whose client configuration
  is missing or lacks a non-empty \<open>api_key\<close>, \<open>token\<close> or \<open>board_id\<close> throws the
  configuration error and leaves the world as it was: no request to the provider, no
  ledger row. An update or a comment checks \<open>api_key\<close> and \<open>token\<close> only (after the
  test for the card id, which has an error of its own); the board id is not looked at.
\<close>

theorem misconfiguration_fails_fast:
  assumes "db_error env w (SelectDesignRequest rid) = None"
    and "design_requests w rid = Some r"
    and "clients w (dr_client_id r) = Some cl"
  shows "(lacks (cl_trello_config cl) [cfg_api_key, cfg_token, cfg_board_id] \<longrightarrow>
            createTrelloCard src env rid w = (Inl config_error, w))
       \<and> (lacks (cl_trello_config cl) [cfg_api_key, cfg_token] \<longrightarrow>
            updateTrelloCard src env rid u w =
              (Inl (if truthy (dr_trello_card_id r) then config_error else no_card_error), w)
          \<and> addTrelloComment src env rid c w =
              (Inl (if truthy (dr_trello_card_id r) then config_error else no_card_error), w))"
proof -
  from assms have sel: "select_design_request env rid w = (Inr (r, Some cl), w)"
    by (simp add: select_design_request_found)
  show ?thesis
    by (auto simp: createTrelloCard_def updateTrelloCard_def addTrelloComment_def
        await_def sel throw_def lacks_def split: option.splits)
qed

theorem misconfiguration_fails_fast_witness:
  "createTrelloCard TS example_env ''req-1'' no_token_world = (Inl config_error, no_token_world)
   \<and> updateTrelloCard TS example_env ''req-1'' rename_update no_token_world
       = (Inl config_error, no_token_world)
   \<and> addTrelloComment TS example_env ''req-1'' ''Looks good'' no_token_world
       = (Inl config_error, no_token_world)"
proof -
  let ?cl = "\<lparr>cl_trello_config = Some (example_config\<lparr>cfg_token := Some []\<rparr>)\<rparr>"
  have a: "db_error example_env no_token_world (SelectDesignRequest ''req-1'') = None"
    by (simp add: example_env_def)
  have b: "design_requests no_token_world ''req-1'' = Some synced_request"
    by (simp add: example_defs)
  have c: "clients no_token_world (dr_client_id synced_request) = Some ?cl"
    by (simp add: example_defs)
  have d: "lacks (cl_trello_config ?cl) [cfg_api_key, cfg_token, cfg_board_id]"
    "lacks (cl_trello_config ?cl) [cfg_api_key, cfg_token]"
    "truthy (dr_trello_card_id synced_request)"
    by (simp_all add: lacks_def truthy_def example_defs)
  from misconfiguration_fails_fast [OF a b c, of TS rename_update "''Looks good''"] d
  show ?thesis by simp
qed

text \<open>
  The claim as written fails: with a configuration that has key and token but no board
  id, an update is not refused; it writes a ledger row and calls the provider.
\<close>

theorem update_without_board_counterexample:
  "lacks (Some (example_config\<lparr>cfg_board_id := None\<rparr>)) [cfg_api_key, cfg_token, cfg_board_id]
   \<and> fst (updateTrelloCard TS example_env ''req-1'' rename_update no_board_world)
       = Inr (CardJson ''card-1'' ''https://trello.com/c/card-1'')
   \<and> length (sync_logs (snd (updateTrelloCard TS example_env ''req-1'' rename_update no_board_world))) = 1
   \<and> list_ex provider_call
        (trace (snd (updateTrelloCard TS example_env ''req-1'' rename_update no_board_world)))"
  by (simp add: run_defs example_defs lacks_def)




text \<open>
  C3. While the clock reads a time between 1970 and 2100, for every retry count up to 34
  (the callers pass 0 to 4 only), the next retry time is exactly the current time plus
  5 minutes times 2 to the count, with no jitter and no cap, and it is strictly
  increasing in the count.
\<close>

theorem calculateNextRetry_backoff:
  assumes "sane_clock env" and "n \<le> 34"
  shows "calculateNextRetry (clock env w) n = Inr (clock env w + 300000 * 2 ^ n)
       \<and> (\<forall>m<n. calculateNextRetry (clock env w) m = Inr (clock env w + 300000 * 2 ^ m)
                 \<and> clock env w + 300000 * 2 ^ m < clock env w + 300000 * 2 ^ n)"
proof (intro conjI allI impI)
  show "calculateNextRetry (clock env w) n = Inr (clock env w + 300000 * 2 ^ n)"
    using assms by (rule calculateNextRetry_in_range)
next
  fix m assume "m < n"
  with assms(2) have "m \<le> 34" by simp
  with assms(1) show "calculateNextRetry (clock env w) m = Inr (clock env w + 300000 * 2 ^ m)"
    by (rule calculateNextRetry_in_range)
next
  fix m assume "m < n"
  then have "(2::int) ^ m < 2 ^ n" by (intro power_strict_increasing) simp_all
  then show "clock env w + 300000 * 2 ^ m < clock env w + 300000 * 2 ^ n" by simp
qed

theorem calculateNextRetry_backoff_witness:
  "calculateNextRetry (clock example_env example_world) 4 = Inr 1762132800000
   \<and> calculateNextRetry (clock example_env example_world) 3 = Inr 1762130400000
   \<and> (1762130400000 :: int) < 1762132800000"
proof -
  have clk: "sane_clock example_env"
    by (simp add: sane_clock_def example_env_def)
  have n: "(4::nat) \<le> 34" and m: "(3::nat) < 4" by simp_all
  from calculateNextRetry_backoff [OF clk n, of example_world] m
  have "calculateNextRetry (clock example_env example_world) 4
          = Inr (clock example_env example_world + 300000 * 2 ^ 4)
        \<and> calculateNextRetry (clock example_env example_world) 3
          = Inr (clock example_env example_world + 300000 * 2 ^ 3)
        \<and> clock example_env example_world + 300000 * 2 ^ 3
          < clock example_env example_world + 300000 * 2 ^ 4"
    by blast
  then show ?thesis by (simp add: example_env_def)
qed

text \<open>
  C4. When the sweeper retries a selected ledger entry, the retry throws, and the
  bookkeeping write succeeds, the loop goes on to the rest of the batch with the entry's
  \<open>retry_count\<close> one higher; if the new count is 5 the entry's status is
  \<open>failed_permanently\<close> and its \<open>next_retry_at\<close> is null, so that no later query of
  the sweeper selects it; otherwise its status is \<open>failed\<close> and its \<open>next_retry_at\<close>
  is the clock reading plus 5 minutes times 2 to the new count.
\<close>

theorem renewed_failure_is_counted:
  assumes sel: "ready_for_retry t syncLog" "sl_retry_count syncLog = Some k"
    and ex: "logId < length (sync_logs w)"
    and fail: "retry_entry env logId syncLog w = (Inl e, w1)"
    and wr: "db_error env w1 (UpdateSyncLog logId) = None"
    and clk: "sane_clock env"
  shows "\<exists>w'. retry_loop env ((logId, syncLog) # batch) results w
                = retry_loop env batch (results @ [RetryFailed logId (message e) (k + 1)]) w'
           \<and> sync_logs w' = (sync_logs w1)[logId :=
                (sync_logs w1 ! logId)
                  \<lparr>sl_status := (if k + 1 = 5 then ''failed_permanently'' else ''failed''),
                   sl_error_message := Some (message e),
                   sl_retry_count := Some (k + 1),
                   sl_next_retry_at :=
                     (if k + 1 = 5 then None else Some (clock env w1 + 300000 * 2 ^ (k + 1)))\<rparr>]
           \<and> (k + 1 = 5 \<longrightarrow> (\<forall>t'. \<not> ready_for_retry t' (sync_logs w' ! logId)))"
proof -
  let ?upd = "(sync_logs w1 ! logId)
                \<lparr>sl_status := (if k + 1 = 5 then ''failed_permanently'' else ''failed''),
                 sl_error_message := Some (message e),
                 sl_retry_count := Some (k + 1),
                 sl_next_retry_at :=
                   (if k + 1 = 5 then None else Some (clock env w1 + 300000 * 2 ^ (k + 1)))\<rparr>"
  let ?w' = "emit (SyncLogUpdated logId ?upd) (w1\<lparr>sync_logs := (sync_logs w1)[logId := ?upd]\<rparr>)"
  from sel have k: "k < 5" by (simp add: ready_for_retry_def)
  from steps_run [OF ledger_kept_retry_entry fail] ex
  have ex1: "logId < length (sync_logs w1)" by (simp add: ledger_kept_def)
  from retry_failed_run [OF sel(2) k wr ex1 clk, of e]
  have "try_catch (retry_entry env logId syncLog) (retry_failed env logId syncLog) w
          = (Inr (RetryFailed logId (message e) (k + 1)), ?w')"
    using fail by (simp add: try_catch_def)
  then have "retry_loop env ((logId, syncLog) # batch) results w
               = retry_loop env batch (results @ [RetryFailed logId (message e) (k + 1)]) ?w'"
    by simp
  moreover have "sync_logs ?w' = (sync_logs w1)[logId := ?upd]"
    by (simp add: emit_def)
  moreover have "k + 1 = 5 \<longrightarrow> (\<forall>t'. \<not> ready_for_retry t' (sync_logs ?w' ! logId))"
    using ex1 by (simp add: emit_def ready_for_retry_def)
  ultimately show ?thesis by blast
qed

theorem renewed_failure_is_counted_witness:
  "fst (retry_loop rejecting_env
          [(0, (failed_entry ''req-1'' 1762120000000)\<lparr>sl_retry_count := Some 4\<rparr>)] []
          last_chance_world)
     = Inr [RetryFailed 0
              ''Trello create failed: MCP (MCP card creation failed: MCP client not connected and connection failed) and Direct API (Trello API error: 401 invalid key)''
              5]
   \<and> sl_status (sync_logs (snd (retry_loop rejecting_env
          [(0, (failed_entry ''req-1'' 1762120000000)\<lparr>sl_retry_count := Some 4\<rparr>)] []
          last_chance_world)) ! 0) = ''failed_permanently''
   \<and> sl_next_retry_at (sync_logs (snd (retry_loop rejecting_env
          [(0, (failed_entry ''req-1'' 1762120000000)\<lparr>sl_retry_count := Some 4\<rparr>)] []
          last_chance_world)) ! 0) = None"
proof -
  define entry where "entry = (failed_entry ''req-1'' 1762120000000)\<lparr>sl_retry_count := Some 4\<rparr>"
  define e where "e = Error ''Trello create failed: MCP (MCP card creation failed: MCP client not connected and connection failed) and Direct API (Trello API error: 401 invalid key)''"
  define w1 where "w1 = snd (retry_entry rejecting_env 0 entry last_chance_world)"
  have sel: "ready_for_retry 1762128000000 entry" "sl_retry_count entry = Some 4"
    by (simp_all add: entry_def ready_for_retry_def failed_entry_def new_sync_log_def)
  have ex: "0 < length (sync_logs last_chance_world)"
    by (simp add: example_defs)
  have "fst (retry_entry rejecting_env 0 entry last_chance_world) = Inl e"
    by (simp add: entry_def e_def run_defs sweep_defs example_defs show_nat.simps digit_char_def)
  then have fail: "retry_entry rejecting_env 0 entry last_chance_world = (Inl e, w1)"
    by (simp add: w1_def prod_eq_iff)
  have wr: "db_error rejecting_env w1 (UpdateSyncLog 0) = None"
    by (simp add: example_defs)
  have clk: "sane_clock rejecting_env"
    by (simp add: sane_clock_def example_defs)
  have len: "0 < length (sync_logs w1)"
    using steps_run [OF ledger_kept_retry_entry fail] ex by (auto simp: ledger_kept_def)
  from renewed_failure_is_counted [OF sel ex fail wr clk, of "[]" "[]"] len
  show ?thesis
    by (auto simp: entry_def [symmetric] e_def)
qed

text \<open>
  C5 (the code departs from the claim). A batch of two entries is selected; the retry
  of the first fails and so does the write that records the renewed failure. The loop
  stops there: \<open>processFailedSyncs\<close> throws the write's error and the second entry is
  never retried (its row is untouched, no new attempt row exists for its request). With
  the same provider and a database that takes the write, both entries are processed.
\<close>

theorem sweeper_aborts_on_bookkeeping_failure:
  "map fst (projr (fst (select_failed_syncs flaky_env two_failed_world))) = [0, 1]
   \<and> fst (processFailedSyncs flaky_env two_failed_world)
       = Inl (Error ''Failed to update sync log: connection lost'')
   \<and> map sl_design_request_id (sync_logs (snd (processFailedSyncs flaky_env two_failed_world)))
       = [''req-1'', ''req-2'', ''req-1'']
   \<and> sync_logs (snd (processFailedSyncs flaky_env two_failed_world)) ! 1
       = sync_logs two_failed_world ! 1
   \<and> map result_entry (projr (fst (processFailedSyncs rejecting_env two_failed_world))) = [0, 1]"
  by (simp add: run_defs sweep_defs example_defs show_nat.simps digit_char_def)

text \<open>
  C6. When the provider call of a create attempt fails (an HTTP 401, say) and the
  bookkeeping writes succeed, the attempt's ledger entry ends with status \<open>failed\<close>,
  retry count 0 and next retry five minutes after the clock reading at the failure; the
  request's \<open>sync_status\<close> is \<open>failed\<close>, its \<open>sync_error\<close> is the error message and
  its \<open>sync_attempts\<close> is one more than before; \<open>createTrelloCard\<close> throws the error
  again; and the submission flow that called it still ends with the redirect to the
  request list.
\<close>

theorem create_rejected_is_recorded:
  assumes req: "db_error env w (SelectDesignRequest rid) = None" "design_requests w rid = Some r"
    and cfg: "clients w (dr_client_id r) = Some cl" "cl_trello_config cl = Some cfg"
      "truthy (cfg_api_key cfg)" "truthy (cfg_token cfg)" "truthy (cfg_board_id cfg)"
    and prep: "prepare_card_data TS env r cfg w = (Inr cardData, w0)"
    and ins: "createSyncLog env (new_sync_log (dr_client_id r) rid ''create'' None) w0 = (Inr logId, w1)"
    and call: "callTrelloWithFallback TS env (CreateCard cardData) cfg w1 = (Inl e, w2)"
    and wr: "db_error env w2 (UpdateSyncLog logId) = None"
      "\<forall>w'. db_error env w' (UpdateDesignRequest rid) = None"
    and clk: "sane_clock env"
  shows "fst (createTrelloCard TS env rid w) = Inl e
       \<and> sync_logs (snd (createTrelloCard TS env rid w)) =
           sync_logs w @
             [(new_sync_log (dr_client_id r) rid ''create'' None)
                \<lparr>sl_created_at := clock env w0,
                 sl_status := ''failed'',
                 sl_error_message := Some (message e),
                 sl_retry_count := Some 0,
                 sl_next_retry_at := Some (clock env w2 + 300000)\<rparr>]
       \<and> design_requests (snd (createTrelloCard TS env rid w)) =
           (design_requests w)(rid \<mapsto> r\<lparr>dr_sync_status := ''failed'',
                 dr_sync_error := Some (message e),
                 dr_sync_attempts :=
                   Some ((case dr_sync_attempts r of None \<Rightarrow> 0 | Some k \<Rightarrow> k) + 1)\<rparr>)
       \<and> onSubmit env True (Inr ())
             (Inr \<lparr>ir_success = True, ir_id = rid, ir_short_id = shortId, ir_message = msg\<rparr>) w
           = (Redirected shortId, snd (createTrelloCard TS env rid w))"
proof -
  let ?row = "(new_sync_log (dr_client_id r) rid ''create'' None)\<lparr>sl_created_at := clock env w0\<rparr>"
  from req cfg have sel: "select_design_request env rid w = (Inr (r, Some cl), w)"
    by (simp add: select_design_request_found)
  from steps_run [OF trace_only_prepare_card_data prep]
  have l0: "sync_logs w0 = sync_logs w" and d0: "design_requests w0 = design_requests w"
    by (simp_all add: trace_only_fields)
  from createSyncLog_Inr [OF ins]
  have n: "logId = length (sync_logs w0)" and l1: "sync_logs w1 = sync_logs w0 @ [?row]"
    and d1: "design_requests w1 = design_requests w0"
    by simp_all
  from steps_run [OF trace_only_callTrelloWithFallback call]
  have l2: "sync_logs w2 = sync_logs w1" and d2: "design_requests w2 = design_requests w1"
    by (simp_all add: trace_only_fields)
  have attempt: "create_attempt TS env rid cfg cardData logId w1 = (Inl e, w2)"
    by (simp add: create_attempt_def await_def call)
  have run: "createTrelloCard TS env rid w = create_failed env rid r logId e w2"
    using cfg(2-5)
    by (simp add: createTrelloCard_def await_def sel prep ins try_catch_def attempt)
  have less: "logId < length (sync_logs w2)"
    by (simp add: l2 l1 n)
  have cur: "design_requests w2 rid = Some r"
    by (simp add: d2 d1 d0 req)
  from create_failed_run [OF wr(1) less clk wr(2) cur, of r e]
  show ?thesis
    by (simp add: run onSubmit_def l2 l1 l0 n d2 d1 d0 split: prod.splits)
qed

theorem create_rejected_is_recorded_witness:
  "fst (createTrelloCard TS rejecting_env ''req-1'' example_world)
     = Inl (Error ''Trello create failed: Trello API error: 401 invalid key'')
   \<and> map (\<lambda>l. (sl_status l, sl_retry_count l, sl_next_retry_at l))
         (sync_logs (snd (createTrelloCard TS rejecting_env ''req-1'' example_world)))
       = [(''failed'', Some 0, Some 1762128300000)]
   \<and> map_option (\<lambda>r. (dr_sync_status r, dr_sync_error r, dr_sync_attempts r))
         (design_requests (snd (createTrelloCard TS rejecting_env ''req-1'' example_world)) ''req-1'')
       = Some (''failed'', Some ''Trello create failed: Trello API error: 401 invalid key'', Some 1)
   \<and> fst (onSubmit rejecting_env True (Inr ())
              (Inr \<lparr>ir_success = True, ir_id = ''req-1'', ir_short_id = ''DR-2025-123456'',
                    ir_message = None\<rparr>) example_world)
       = Redirected ''DR-2025-123456''"
proof -
  define cd where "cd = fst (prepare_card_data TS rejecting_env example_request example_config example_world)"
  define row where "row = new_sync_log (dr_client_id example_request) ''req-1'' ''create'' None"
  define w1 where "w1 = snd (createSyncLog rejecting_env row example_world)"
  define w2 where "w2 = snd (callTrelloWithFallback TS rejecting_env (CreateCard (projr cd)) example_config w1)"
  define cl where "cl = \<lparr>cl_trello_config = Some example_config\<rparr>"
  have req: "db_error rejecting_env example_world (SelectDesignRequest ''req-1'') = None"
    "design_requests example_world ''req-1'' = Some example_request"
    by (simp_all add: example_defs)
  have cfg: "clients example_world (dr_client_id example_request) = Some cl"
    "cl_trello_config cl = Some example_config"
    "truthy (cfg_api_key example_config)" "truthy (cfg_token example_config)"
    "truthy (cfg_board_id example_config)"
    by (simp_all add: example_defs cl_def truthy_def)
  have prep: "prepare_card_data TS rejecting_env example_request example_config example_world
                = (Inr (projr cd), example_world)"
    by (simp add: cd_def prepare_card_data_def await_def resolve_def lift_def optional_iso_def
        truthy_def example_config_def example_request_def)
  have ins: "createSyncLog rejecting_env row example_world = (Inr 0, w1)"
    by (simp add: w1_def createSyncLog_def Let_def example_defs)
  have call: "callTrelloWithFallback TS rejecting_env (CreateCard (projr cd)) example_config w1
                = (Inl (Error ''Trello create failed: Trello API error: 401 invalid key''), w2)"
    by (simp add: w2_def callTrelloWithFallback_def callTrelloAPI_def try_catch_def await_def
        throw_def resolve_def Let_def rejecting_env_def example_env_def show_nat.simps digit_char_def)
  have wr: "db_error rejecting_env w2 (UpdateSyncLog 0) = None"
    "\<forall>w'. db_error rejecting_env w' (UpdateDesignRequest ''req-1'') = None"
    by (simp_all add: example_defs)
  have clk: "sane_clock rejecting_env"
    by (simp add: sane_clock_def example_defs)
  from create_rejected_is_recorded [OF req cfg prep ins [unfolded row_def] call wr clk,
      of "''DR-2025-123456''" None]
  show ?thesis
    by (simp add: new_sync_log_def example_defs)
qed

text \<open>
  C7. The description built by \<open>buildCardDescription\<close> is the title line, the sections
  of exactly the optional fields that are present, in the order Context, Design Needs,
  Key Message, Size/Format, Additional Notes, the Contact, Priority and Submitted lines,
  and the attachment-count line exactly when there are attachments; no section it emits
  has empty content.
\<close>

theorem buildCardDescription_sections:
  "buildCardDescription env r = spec_description env r
   \<and> (\<forall>s \<in> set (spec_present_sections r). text_of (snd s) \<noteq> [])"
proof
  show "buildCardDescription env r = spec_description env r"
    by (simp only: source_description_sections spec_description_sections)
  show "\<forall>s \<in> set (spec_present_sections r). text_of (snd s) \<noteq> []"
    by (auto simp: spec_present_sections_def text_of_def)
qed

theorem buildCardDescription_sections_witness:
  "buildCardDescription example_env example_request = spec_description example_env example_request
   \<and> (''Context'', Some ''Spring campaign'') \<in> set (spec_present_sections example_request)
   \<and> text_of (snd (''Context'', Some ''Spring campaign'')) \<noteq> []"
proof -
  have m: "(''Context'', Some ''Spring campaign'') \<in> set (spec_present_sections example_request)"
    by (simp add: spec_present_sections_def spec_optional_sections_def example_request_def)
  from buildCardDescription_sections [of example_env example_request] m
  show ?thesis by blast
qed




text \<open>
  C9. When the client's configuration has neither \<open>list_id\<close> nor \<open>default_list_id\<close>
  and the listing of the board's lists answers with a non-empty sequence, the create
  operation sends exactly one card call, \<^verbatim>\<open>POST /cards\<close>, and its \<open>idList\<close> is the id of
  the first list of that sequence.
\<close>

theorem default_list_is_first_listed:
  assumes req: "db_error env w (SelectDesignRequest rid) = None" "design_requests w rid = Some r"
    and cfg: "clients w (dr_client_id r) = Some cl" "cl_trello_config cl = Some cfg"
      "truthy (cfg_api_key cfg)" "truthy (cfg_token cfg)" "truthy (cfg_board_id cfg)"
    and nolist: "\<not> truthy (cfg_list_id cfg)" "\<not> truthy (cfg_default_list_id cfg)"
    and lists: "fetch env w \<lparr>rq_method = ''GET'', rq_endpoint = lists_endpoint cfg,
                   rq_key = cfg_api_key cfg, rq_token = cfg_token cfg, rq_body = NoBody\<rparr>
                 = HttpResponse status errorText (ListsJson ((listId, listName) # others))"
      "200 \<le> status" "status \<le> 299"
    and due: "optional_iso env (dr_deadline r) = Inr due"
    and db: "\<forall>w'. db_error env w' InsertSyncLog = None"
  shows "\<exists>row rest.
           trace (snd (createTrelloCard TS env rid w)) =
             trace w @
               [Fetch \<lparr>rq_method = ''GET'', rq_endpoint = lists_endpoint cfg,
                        rq_key = cfg_api_key cfg, rq_token = cfg_token cfg, rq_body = NoBody\<rparr>,
                SyncLogInserted (length (sync_logs w)) row,
                Fetch \<lparr>rq_method = ''POST'', rq_endpoint = ''/cards'',
                        rq_key = cfg_api_key cfg, rq_token = cfg_token cfg,
                        rq_body = CardBody
                          \<lparr>cd_name = card_name r, cd_desc = buildCardDescription env r,
                           cd_idList = Some listId, cd_pos = ''top'', cd_due = due,
                           cd_labels = buildCardLabels r cfg,
                           cd_members = (case cfg_default_members cfg of None \<Rightarrow> [] | Some ms \<Rightarrow> ms)\<rparr>\<rparr>]
               @ rest
         \<and> list_all (\<lambda>e. \<not> provider_call e) rest"
proof -
  let ?get = "\<lparr>rq_method = ''GET'', rq_endpoint = lists_endpoint cfg,
                rq_key = cfg_api_key cfg, rq_token = cfg_token cfg, rq_body = NoBody\<rparr>"
  let ?cd = "\<lparr>cd_name = card_name r, cd_desc = buildCardDescription env r,
               cd_idList = Some listId, cd_pos = ''top'', cd_due = due,
               cd_labels = buildCardLabels r cfg,
               cd_members = (case cfg_default_members cfg of None \<Rightarrow> [] | Some ms \<Rightarrow> ms)\<rparr>"
  let ?post = "\<lparr>rq_method = ''POST'', rq_endpoint = ''/cards'',
                 rq_key = cfg_api_key cfg, rq_token = cfg_token cfg, rq_body = CardBody ?cd\<rparr>"
  let ?w0 = "emit (Fetch ?get) w"
  let ?n = "length (sync_logs w)"
  let ?row = "(new_sync_log (dr_client_id r) rid ''create'' None)\<lparr>sl_created_at := clock env ?w0\<rparr>"
  let ?w1 = "emit (SyncLogInserted ?n ?row) (?w0\<lparr>sync_logs := sync_logs ?w0 @ [?row]\<rparr>)"
  let ?w2 = "emit (Fetch ?post) ?w1"
  from req cfg have sel: "select_design_request env rid w = (Inr (r, Some cl), w)"
    by (simp add: select_design_request_found)
  have prep: "prepare_card_data TS env r cfg w = (Inr ?cd, ?w0)"
    using nolist lists due
    by (simp add: prepare_card_data_def getDefaultListId_def callTrelloAPI_def await_def
        try_catch_def resolve_def lift_def Let_def)
  have run: "createTrelloCard TS env rid w =
               try_catch (create_attempt TS env rid cfg ?cd ?n) (create_failed env rid r ?n) ?w1"
    using cfg(2-5) db prep
    by (simp add: createTrelloCard_def await_def sel createSyncLog_ok emit_def)
  from direct_create_call [of env ?cd cfg ?w1]
  obtain res where call: "callTrelloWithFallback TS env (CreateCard ?cd) cfg ?w1 = (res, ?w2)"
    by blast
  have "extends_by (\<lambda>e. \<not> provider_call e) ?w2
          (snd (try_catch (create_attempt TS env rid cfg ?cd ?n) (create_failed env rid r ?n) ?w1))"
    unfolding create_attempt_def
  proof (rule try_await_extends [where res = res])
    show "callTrelloWithFallback TS env (CreateCard ?cd) cfg ?w1 = (res, ?w2)"
      by (rule call)
    show "steps (extends_by (\<lambda>e. \<not> provider_call e)) (create_failed env rid r ?n e)" for e
      by (rule quiet_create_failed)
    show "reflp (extends_by (\<lambda>e. \<not> provider_call e))"
      by (rule reflp_extends_by)
    show "transp (extends_by (\<lambda>e. \<not> provider_call e))"
      by (rule transp_extends_by)
  next
    fix a
    show "steps (extends_by (\<lambda>e. \<not> provider_call e))
            (case a of (trelloResponse, method) \<Rightarrow>
               await (now env) (\<lambda>t.
               await (update_design_request env rid
                        (\<lambda>r. r\<lparr>dr_trello_card_id := assign_if_defined (response_id trelloResponse) (dr_trello_card_id r),
                                dr_trello_card_url := assign_if_defined (response_url trelloResponse) (dr_trello_card_url r),
                                dr_sync_status := ''synced'',
                                dr_last_sync_at := Some t,
                                dr_sync_error := None\<rparr>)) (\<lambda>updateError.
               await (now env) (\<lambda>t'.
               await (updateSyncLog env ?n
                        (\<lambda>l. l\<lparr>sl_status := ''completed'',
                                sl_trello_card_id := assign_if_defined (response_id trelloResponse) (sl_trello_card_id l),
                                sl_trello_response := Some trelloResponse,
                                sl_synced_by := method,
                                sl_completed_at := Some t'\<rparr>)) (\<lambda>_.
               await (logActivity env ''design_request'' rid ''trello_card_created'') (\<lambda>_.
               resolve trelloResponse))))))"
      by (intro steps_intros transp_extends_by reflp_extends_by emits_updateSyncLog
          emits_update_design_request emits_logActivity) simp_all
  qed
  then obtain rest where "trace (snd (createTrelloCard TS env rid w)) = trace ?w2 @ rest"
      "list_all (\<lambda>e. \<not> provider_call e) rest"
    unfolding run extends_by_def by blast
  then show ?thesis
    by (intro exI [of _ ?row] exI [of _ rest]) (simp add: emit_def)
qed

theorem default_list_is_first_listed_witness:
  "\<exists>row rest.
     trace (snd (createTrelloCard TS example_env ''req-1'' no_list_world)) =
       trace no_list_world @
         [Fetch \<lparr>rq_method = ''GET'', rq_endpoint = ''/boards/board-1/lists'',
                  rq_key = Some ''key-1'', rq_token = Some ''token-1'', rq_body = NoBody\<rparr>,
          SyncLogInserted (length (sync_logs no_list_world)) row,
          Fetch \<lparr>rq_method = ''POST'', rq_endpoint = ''/cards'',
                  rq_key = Some ''key-1'', rq_token = Some ''token-1'',
                  rq_body = CardBody
                    \<lparr>cd_name = card_name example_request,
                     cd_desc = buildCardDescription example_env example_request,
                     cd_idList = Some ''L1'', cd_pos = ''top'', cd_due = None,
                     cd_labels = [''label123''], cd_members = []\<rparr>\<rparr>]
         @ rest
     \<and> list_all (\<lambda>e. \<not> provider_call e) rest"
proof -
  define cfg where "cfg = example_config\<lparr>cfg_list_id := None\<rparr>"
  define cl where "cl = \<lparr>cl_trello_config = Some cfg\<rparr>"
  have req: "db_error example_env no_list_world (SelectDesignRequest ''req-1'') = None"
    "design_requests no_list_world ''req-1'' = Some example_request"
    by (simp_all add: example_defs)
  have cfg: "clients no_list_world (dr_client_id example_request) = Some cl"
    "cl_trello_config cl = Some cfg"
    "truthy (cfg_api_key cfg)" "truthy (cfg_token cfg)" "truthy (cfg_board_id cfg)"
    "\<not> truthy (cfg_list_id cfg)" "\<not> truthy (cfg_default_list_id cfg)"
    by (simp_all add: example_defs cl_def cfg_def truthy_def)
  have lists: "fetch example_env no_list_world
                 \<lparr>rq_method = ''GET'', rq_endpoint = lists_endpoint cfg,
                  rq_key = cfg_api_key cfg, rq_token = cfg_token cfg, rq_body = NoBody\<rparr>
               = HttpResponse 200 ''OK'' (ListsJson ((''L1'', ''Inbox'') # [(''L2'', ''Doing'')]))"
    "(200::nat) \<le> 200" "(200::nat) \<le> 299"
    by (simp_all add: example_env_def)
  have due: "optional_iso example_env (dr_deadline example_request) = Inr None"
    by (simp add: optional_iso_def truthy_def example_request_def)
  have db: "\<forall>w'. db_error example_env w' InsertSyncLog = None"
    by (simp add: example_env_def)
  from default_list_is_first_listed [OF req cfg lists due db]
  show ?thesis
    by (simp add: cfg_def example_config_def lists_endpoint_def text_of_def buildCardLabels_def
        label_for_def truthy_def example_request_def cong: if_cong)
qed

text \<open>
  C10. When the provider call of an update attempt fails and the ledger write succeeds,
  \<open>updateTrelloCard\<close> marks the attempt's ledger entry \<open>failed\<close> with retry count 0
  and a next retry time, throws the error again, and leaves the table of design requests
  exactly as it was.
\<close>

theorem update_failure_touches_ledger_only:
  assumes req: "db_error env w (SelectDesignRequest rid) = None" "design_requests w rid = Some r"
      "truthy (dr_trello_card_id r)"
    and cfg: "clients w (dr_client_id r) = Some cl" "cl_trello_config cl = Some cfg"
      "truthy (cfg_api_key cfg)" "truthy (cfg_token cfg)"
    and ins: "createSyncLog env (new_sync_log (dr_client_id r) rid ''update'' (dr_trello_card_id r)) w
                = (Inr logId, w1)"
    and upd: "build_trello_update env u = Inr tu"
    and call: "callTrelloWithFallback src env (UpdateCard (text_of (dr_trello_card_id r)) tu) cfg w1
                = (Inl e, w2)"
    and wr: "db_error env w2 (UpdateSyncLog logId) = None"
    and clk: "sane_clock env"
  shows "fst (updateTrelloCard src env rid u w) = Inl e
       \<and> design_requests (snd (updateTrelloCard src env rid u w)) = design_requests w
       \<and> sync_logs (snd (updateTrelloCard src env rid u w)) =
           sync_logs w @
             [(new_sync_log (dr_client_id r) rid ''update'' (dr_trello_card_id r))
                \<lparr>sl_created_at := clock env w,
                 sl_status := ''failed'',
                 sl_error_message := Some (message e),
                 sl_retry_count := Some 0,
                 sl_next_retry_at := Some (clock env w2 + 300000)\<rparr>]"
proof -
  let ?row = "(new_sync_log (dr_client_id r) rid ''update'' (dr_trello_card_id r))
                \<lparr>sl_created_at := clock env w\<rparr>"
  from req cfg have sel: "select_design_request env rid w = (Inr (r, Some cl), w)"
    by (simp add: select_design_request_found)
  from createSyncLog_Inr [OF ins]
  have n: "logId = length (sync_logs w)" and l1: "sync_logs w1 = sync_logs w @ [?row]"
    and d1: "design_requests w1 = design_requests w"
    by simp_all
  from steps_run [OF trace_only_callTrelloWithFallback call]
  have l2: "sync_logs w2 = sync_logs w1" and d2: "design_requests w2 = design_requests w1"
    by (simp_all add: trace_only_fields)
  have attempt: "update_attempt src env rid (text_of (dr_trello_card_id r)) cfg u logId w1 = (Inl e, w2)"
    by (simp add: update_attempt_def upd await_def lift_def call)
  have "updateTrelloCard src env rid u w = update_failed env logId e w2"
    using req(3) cfg(2-4)
    by (simp add: updateTrelloCard_def await_def sel ins try_catch_def attempt)
  moreover have "logId < length (sync_logs w2)"
    by (simp add: l2 l1 n)
  ultimately show ?thesis
    using update_failed_run [OF wr _ clk, of e]
    by (simp add: emit_def l2 l1 n d2 d1)
qed

theorem update_failure_touches_ledger_only_witness:
  "fst (updateTrelloCard TS rejecting_env ''req-1'' rename_update synced_world)
     = Inl (Error ''Trello update failed: Trello API error: 401 invalid key'')
   \<and> design_requests (snd (updateTrelloCard TS rejecting_env ''req-1'' rename_update synced_world))
       = design_requests synced_world
   \<and> map (\<lambda>l. (sl_status l, sl_retry_count l, sl_next_retry_at l))
         (sync_logs (snd (updateTrelloCard TS rejecting_env ''req-1'' rename_update synced_world)))
       = [(''failed'', Some 0, Some 1762128300000)]"
proof -
  define tu where "tu = \<lparr>tu_name = ud_name rename_update, tu_desc = None, tu_due = None,
                         tu_idList = None, tu_closed = None\<rparr>"
  define row where "row = new_sync_log (dr_client_id synced_request) ''req-1'' ''update''
                            (dr_trello_card_id synced_request)"
  define w1 where "w1 = snd (createSyncLog rejecting_env row synced_world)"
  define w2 where "w2 = snd (callTrelloWithFallback TS rejecting_env
                               (UpdateCard (text_of (dr_trello_card_id synced_request)) tu)
                               example_config w1)"
  define cl where "cl = \<lparr>cl_trello_config = Some example_config\<rparr>"
  have req: "db_error rejecting_env synced_world (SelectDesignRequest ''req-1'') = None"
    "design_requests synced_world ''req-1'' = Some synced_request"
    "truthy (dr_trello_card_id synced_request)"
    by (simp_all add: example_defs truthy_def)
  have cfg: "clients synced_world (dr_client_id synced_request) = Some cl"
    "cl_trello_config cl = Some example_config"
    "truthy (cfg_api_key example_config)" "truthy (cfg_token example_config)"
    by (simp_all add: example_defs cl_def truthy_def)
  have ins: "createSyncLog rejecting_env row synced_world = (Inr 0, w1)"
    by (simp add: w1_def createSyncLog_def Let_def example_defs)
  have upd: "build_trello_update rejecting_env rename_update = Inr tu"
    by (simp add: build_trello_update_def optional_iso_def truthy_def tu_def rename_update_def)
  have call: "callTrelloWithFallback TS rejecting_env
                (UpdateCard (text_of (dr_trello_card_id synced_request)) tu) example_config w1
                = (Inl (Error ''Trello update failed: Trello API error: 401 invalid key''), w2)"
    by (simp add: w2_def callTrelloWithFallback_def callTrelloAPI_def try_catch_def await_def
        throw_def resolve_def Let_def rejecting_env_def example_env_def show_nat.simps digit_char_def)
  have wr: "db_error rejecting_env w2 (UpdateSyncLog 0) = None"
    by (simp add: example_defs)
  have clk: "sane_clock rejecting_env"
    by (simp add: sane_clock_def example_defs)
  from update_failure_touches_ledger_only [OF req cfg ins [unfolded row_def] upd call wr clk]
  show ?thesis
    by (simp add: new_sync_log_def example_defs)
qed

end
